theory Spec2Isabelle
  imports Main "HOL-Library.Multiset"
begin

section \<open>Python values and exceptions\<close>

text \<open>
  The plugin handles dynamically typed data: option dictionaries, decoded JSON and
  database rows. A value is one of the shapes below. \<open>PDict\<close> is a dictionary with
  string keys, kept as an association list whose first binding of a key is the
  dictionary's; \<open>PObj\<close> is an object with named attributes (a database row such as an
  authority, a DNS provider or a pending certificate, or an x509 name with its
  \<open>value\<close>).
\<close>

datatype pyval =
    PNone
  | PBool bool
  | PInt int
  | PStr string
  | PList "pyval list"
  | PDict "(string \<times> pyval) list"
  | PObj "(string \<times> pyval) list"

text \<open>
  Exceptions, all of them subclasses of Python's \<open>Exception\<close>. Interpreter-level
  signals outside that class (KeyboardInterrupt, SystemExit) are not failures of the
  program and are not modelled.
\<close>

datatype exn =
    ValueError string
  | TypeError string
  | KeyError string
  | AttributeError string
  | ImportError string
  | JSONDecodeError string
  | InvalidAuthority string
  | InvalidConfiguration string
  | UnknownProvider string
  | ClientError string
  | PollError string
  | AcmeError string
  | OtherException string

text \<open>Truthiness, as \<open>if x\<close> and \<open>not x\<close> test it.\<close>

fun truthy :: "pyval \<Rightarrow> bool" where
  "truthy PNone = False"
| "truthy (PBool b) = b"
| "truthy (PInt i) = (i \<noteq> 0)"
| "truthy (PStr s) = (s \<noteq> [])"
| "truthy (PList xs) = (xs \<noteq> [])"
| "truthy (PDict d) = (d \<noteq> [])"
| "truthy (PObj a) = True"

text \<open>\<open>d.get(k)\<close> on a dictionary: the value, or \<open>None\<close>.\<close>

definition dict_get :: "(string \<times> pyval) list \<Rightarrow> string \<Rightarrow> pyval" where
  "dict_get d k = (case map_of d k of None \<Rightarrow> PNone | Some v \<Rightarrow> v)"

text \<open>\<open>d.get(k, default)\<close>.\<close>

definition dict_get_default :: "(string \<times> pyval) list \<Rightarrow> string \<Rightarrow> pyval \<Rightarrow> pyval" where
  "dict_get_default d k dflt = (case map_of d k of None \<Rightarrow> dflt | Some v \<Rightarrow> v)"

text \<open>\<open>d[k]\<close> on a dictionary: a missing key raises \<open>KeyError\<close>.\<close>

definition dict_item :: "(string \<times> pyval) list \<Rightarrow> string \<Rightarrow> exn + pyval" where
  "dict_item d k = (case map_of d k of None \<Rightarrow> Inl (KeyError k) | Some v \<Rightarrow> Inr v)"

text \<open>
  \<open>v[k]\<close> with a string \<open>k\<close> on any value: only a dictionary can be subscripted by a
  string.
\<close>

fun getitem :: "pyval \<Rightarrow> string \<Rightarrow> exn + pyval" where
  "getitem (PDict d) k = dict_item d k"
| "getitem (PList xs) k = Inl (TypeError ''list indices must be integers or slices, not str'')"
| "getitem (PStr s) k = Inl (TypeError ''string indices must be integers'')"
| "getitem v k = Inl (TypeError ''object is not subscriptable'')"

text \<open>\<open>v.a\<close>: an attribute of an object; any other value has no such attribute.\<close>

fun getattr :: "pyval \<Rightarrow> string \<Rightarrow> exn + pyval" where
  "getattr (PObj attrs) a =
     (case map_of attrs a of None \<Rightarrow> Inl (AttributeError a) | Some v \<Rightarrow> Inr v)"
| "getattr v a = Inl (AttributeError a)"

text \<open>
  \<open>for x in v\<close>: the elements of a list, the keys of a dictionary (each once, in the
  order of their first binding), the characters of a string; anything else is not
  iterable.
\<close>

fun iter :: "pyval \<Rightarrow> exn + pyval list" where
  "iter (PList xs) = Inr xs"
| "iter (PDict d) = Inr (map PStr (rev (remdups (rev (map fst d)))))"
| "iter (PStr s) = Inr (map (\<lambda>c. PStr [c]) s)"
| "iter v = Inl (TypeError ''object is not iterable'')"

section \<open>get_domains\<close>

text \<open>
  \<^verbatim>\<open>domains = [options['common_name']]
if options.get('extensions'):
    for name in options['extensions']['sub_alt_names']['names']:
        domains.append(name)
return domains\<close>
\<close>

fun append_each :: "pyval list \<Rightarrow> pyval list \<Rightarrow> pyval list" where
  "append_each domains [] = domains"
| "append_each domains (name # rest) = append_each (domains @ [name]) rest"

definition get_domains :: "(string \<times> pyval) list \<Rightarrow> exn + pyval list" where
  "get_domains options =
     (case dict_item options ''common_name'' of
        Inl e \<Rightarrow> Inl e
      | Inr common_name \<Rightarrow>
          (let domains = [common_name] in
           if truthy (dict_get options ''extensions'') then
             (case dict_item options ''extensions'' of
                Inl e \<Rightarrow> Inl e
              | Inr extensions \<Rightarrow>
                  (case getitem extensions ''sub_alt_names'' of
                     Inl e \<Rightarrow> Inl e
                   | Inr sub_alt_names \<Rightarrow>
                       (case getitem sub_alt_names ''names'' of
                          Inl e \<Rightarrow> Inl e
                        | Inr names \<Rightarrow>
                            (case iter names of
                               Inl e \<Rightarrow> Inl e
                             | Inr ns \<Rightarrow> Inr (append_each domains ns)))))
           else Inr domains))"

section \<open>ACME objects\<close>

text \<open>
  A challenge of the ACME library is an instance of one of its challenge classes;
  \<open>isinstance(c, challenges.DNS01)\<close> is \<open>is_DNS01\<close>.
\<close>

datatype chall = DNS01 string | HTTP01 string | TLSSNI01 string | UnrecognizedChallenge string

fun is_DNS01 :: "chall \<Rightarrow> bool" where
  "is_DNS01 (DNS01 token) = True"
| "is_DNS01 c = False"

record challb =
  chall :: chall
  uri :: string

text \<open>An authorization resource; \<open>resolved_combinations\<close> is \<open>authz.body.resolved_combinations\<close>.\<close>

record authz =
  authz_uri :: string
  resolved_combinations :: "challb list list"

type_synonym jwk = string

record acme_client =
  directory :: pyval
  key :: jwk

text \<open>
  \<^verbatim>\<open>class AuthorizationRecord(object):
    def __init__(self, host, authz, dns_challenge, change_id)\<close>
\<close>

record AuthorizationRecord =
  host :: pyval
  authz :: authz
  dns_challenge :: challb
  change_id :: pyval

section \<open>The outside world\<close>

text \<open>
  Every call that leaves the plugin (to the CA through the ACME client, to a DNS
  provider module, to Lemur's services, to the error log) is recorded in a trace, in
  the order the calls are made, with the arguments they are made with.
\<close>

datatype event =
    GeneratePrivateKey string
  | ClientInit pyval jwk
  | Register pyval
  | AgreeToTos string
  | RequestDomainChallenges pyval
  | CreateTxtRecord string string pyval
  | WaitForDnsChange pyval pyval
  | SimpleVerify string chall pyval jwk
  | AnswerChallenge challb string
  | DeleteTxtRecord pyval pyval string string
  | PollAndRequestIssuance string "authz list"
  | FetchChain string
  | AuthorizationGet pyval
  | AuthorizationCreate pyval "pyval list" pyval
  | DnsProviderGet pyval
  | LoggerError string

text \<open>
  The state is the world \<open>'w\<close> the collaborators act on, and the trace. A computation
  takes a state and gives back a result (\<open>Inl\<close> an exception raised, \<open>Inr\<close> a value
  returned) and the state it leaves.
\<close>

type_synonym 'w state = "'w \<times> event list"

type_synonym ('w, 'a) io = "'w state \<Rightarrow> (exn + 'a) \<times> 'w state"

text \<open>
  A DNS provider module (\<open>cloudflare\<close>, \<open>dyn\<close>, \<open>route53\<close>): its three functions may
  change the world, and may raise.
\<close>

record 'w dns_module =
  create_txt_record :: "string \<Rightarrow> string \<Rightarrow> pyval \<Rightarrow> 'w \<Rightarrow> (exn + pyval) \<times> 'w"
  wait_for_dns_change :: "pyval \<Rightarrow> pyval \<Rightarrow> 'w \<Rightarrow> (exn + unit) \<times> 'w"
  delete_txt_record :: "pyval \<Rightarrow> pyval \<Rightarrow> string \<Rightarrow> string \<Rightarrow> 'w \<Rightarrow> (exn + unit) \<times> 'w"

text \<open>
  What the plugin imports and does not define: the application's configuration, the
  pure functions of the libraries (JSON decoding, string conversion, the challenge
  objects' methods, the registration message \<open>NewRegistration.from_data(email=...)\<close>,
  which may reject the e-mail, OpenSSL's PEM functions), the methods of the ACME client, Lemur's
  services, Python's relative import, and the three DNS provider modules. They are
  parameters of the model.
\<close>

record 'w env =
  config :: "(string \<times> pyval) list"
  json_loads :: "string \<Rightarrow> exn + pyval"
  py_str :: "pyval \<Rightarrow> string"
  validation_domain_name :: "challb \<Rightarrow> pyval \<Rightarrow> string"
  validation :: "challb \<Rightarrow> jwk \<Rightarrow> string"
  challenge_response :: "challb \<Rightarrow> jwk \<Rightarrow> string"
  public_key :: "jwk \<Rightarrow> jwk"
  registration_from_data :: "pyval \<Rightarrow> exn + pyval"
  load_certificate_request :: "pyval \<Rightarrow> exn + string"
  dump_certificate :: "string \<Rightarrow> string"
  generate_private_key :: "string \<Rightarrow> 'w \<Rightarrow> (exn + jwk) \<times> 'w"
  Client :: "pyval \<Rightarrow> jwk \<Rightarrow> 'w \<Rightarrow> (exn + unit) \<times> 'w"
  register :: "acme_client \<Rightarrow> pyval \<Rightarrow> 'w \<Rightarrow> (exn + string) \<times> 'w"
  agree_to_tos :: "acme_client \<Rightarrow> string \<Rightarrow> 'w \<Rightarrow> (exn + unit) \<times> 'w"
  request_domain_challenges :: "acme_client \<Rightarrow> pyval \<Rightarrow> 'w \<Rightarrow> (exn + authz) \<times> 'w"
  simple_verify :: "string \<Rightarrow> chall \<Rightarrow> pyval \<Rightarrow> jwk \<Rightarrow> 'w \<Rightarrow> (exn + bool) \<times> 'w"
  answer_challenge :: "acme_client \<Rightarrow> challb \<Rightarrow> string \<Rightarrow> 'w \<Rightarrow> (exn + unit) \<times> 'w"
  poll_and_request_issuance ::
    "acme_client \<Rightarrow> string \<Rightarrow> authz list \<Rightarrow> 'w \<Rightarrow> (exn + string) \<times> 'w"
  fetch_chain :: "acme_client \<Rightarrow> string \<Rightarrow> 'w \<Rightarrow> (exn + string list) \<times> 'w"
  authorization_get :: "pyval \<Rightarrow> 'w \<Rightarrow> (exn + pyval) \<times> 'w"
  authorization_create :: "pyval \<Rightarrow> pyval list \<Rightarrow> pyval \<Rightarrow> 'w \<Rightarrow> (exn + pyval) \<times> 'w"
  dns_provider_get :: "pyval \<Rightarrow> 'w \<Rightarrow> (exn + pyval) \<times> 'w"
  import_relative :: "string \<Rightarrow> exn + 'w dns_module"
  cloudflare :: "'w dns_module"
  dyn :: "'w dns_module"
  route53 :: "'w dns_module"

text \<open>An outside call: the collaborator acts on the world, the trace grows by the call.\<close>

definition call :: "event \<Rightarrow> ('w \<Rightarrow> (exn + 'a) \<times> 'w) \<Rightarrow> ('w, 'a) io" where
  "call ev f = (\<lambda>(w, tr). case f w of (r, w') \<Rightarrow> (r, (w', tr @ [ev])))"

text \<open>Sequencing: an exception raised by the first computation ends the sequence.\<close>

definition and_then :: "('w, 'a) io \<Rightarrow> ('a \<Rightarrow> ('w, 'b) io) \<Rightarrow> ('w, 'b) io" where
  "and_then m f = (\<lambda>s. case m s of (Inl e, s') \<Rightarrow> (Inl e, s') | (Inr a, s') \<Rightarrow> f a s')"

definition ret :: "'a \<Rightarrow> ('w, 'a) io" where
  "ret a = (\<lambda>s. (Inr a, s))"

definition raise :: "exn \<Rightarrow> ('w, 'a) io" where
  "raise e = (\<lambda>s. (Inl e, s))"

text \<open>A pure computation that may raise.\<close>

definition lift :: "exn + 'a \<Rightarrow> ('w, 'a) io" where
  "lift r = (\<lambda>s. (r, s))"

text \<open>\<open>current_app.logger.error(msg)\<close>.\<close>

definition logger_error :: "string \<Rightarrow> ('w, unit) io" where
  "logger_error msg = (\<lambda>(w, tr). (Inr (), (w, tr @ [LoggerError msg])))"

section \<open>Challenge selection and creation\<close>

text \<open>
  \<^verbatim>\<open>def find_dns_challenge(authz):
    for combo in authz.body.resolved_combinations:
        if (len(combo) == 1 and isinstance(combo[0].chall, challenges.DNS01)):
            yield combo[0]\<close>
  The generator's values, as a list.
\<close>

fun find_dns_challenge_in :: "challb list list \<Rightarrow> challb list" where
  "find_dns_challenge_in [] = []"
| "find_dns_challenge_in (combo # rest) =
     (if length combo = 1 \<and> is_DNS01 (chall (combo ! 0))
      then combo ! 0 # find_dns_challenge_in rest
      else find_dns_challenge_in rest)"

definition find_dns_challenge :: "authz \<Rightarrow> challb list" where
  "find_dns_challenge a = find_dns_challenge_in (resolved_combinations a)"

text \<open>
  \<open>[dns_challenge] = find_dns_challenge(authz)\<close>: unpacking into one name raises
  \<open>ValueError\<close> unless there is exactly one value.
\<close>

fun unpack_one :: "'a list \<Rightarrow> exn + 'a" where
  "unpack_one [] = Inl (ValueError ''not enough values to unpack (expected 1, got 0)'')"
| "unpack_one [x] = Inr x"
| "unpack_one (x # y # zs) = Inl (ValueError ''too many values to unpack (expected 1)'')"

definition start_dns_challenge ::
  "'w env \<Rightarrow> acme_client \<Rightarrow> pyval \<Rightarrow> pyval \<Rightarrow> 'w dns_module \<Rightarrow> ('w, AuthorizationRecord) io" where
  "start_dns_challenge env acme_client account_number h dns_provider =
     and_then (call (RequestDomainChallenges h) (request_domain_challenges env acme_client h))
       (\<lambda>a.
     and_then (lift (unpack_one (find_dns_challenge a)))
       (\<lambda>dns_chall.
     and_then (call (CreateTxtRecord (validation_domain_name env dns_chall h)
                        (validation env dns_chall (key acme_client)) account_number)
                 (create_txt_record dns_provider (validation_domain_name env dns_chall h)
                        (validation env dns_chall (key acme_client)) account_number))
       (\<lambda>cid.
     ret \<lparr>host = h, authz = a, dns_challenge = dns_chall, change_id = cid\<rparr>)))"

text \<open>
  \<^verbatim>\<open>def complete_dns_challenge(acme_client, account_number, authz_record, dns_provider):
    dns_provider.wait_for_dns_change(authz_record.change_id, account_number=account_number)
    response = authz_record.dns_challenge.response(acme_client.key)
    verified = response.simple_verify(authz_record.dns_challenge.chall, authz_record.host,
                                      acme_client.key.public_key())
    if not verified:
        raise ValueError("Failed verification")
    acme_client.answer_challenge(authz_record.dns_challenge, response)\<close>
\<close>

definition complete_dns_challenge ::
  "'w env \<Rightarrow> acme_client \<Rightarrow> pyval \<Rightarrow> AuthorizationRecord \<Rightarrow> 'w dns_module \<Rightarrow> ('w, unit) io" where
  "complete_dns_challenge env acme_client account_number authz_record dns_provider =
     and_then (call (WaitForDnsChange (change_id authz_record) account_number)
                 (wait_for_dns_change dns_provider (change_id authz_record) account_number))
       (\<lambda>_.
     let resp = challenge_response env (dns_challenge authz_record) (key acme_client) in
     and_then (call (SimpleVerify resp (chall (dns_challenge authz_record)) (host authz_record)
                        (public_key env (key acme_client)))
                 (simple_verify env resp (chall (dns_challenge authz_record)) (host authz_record)
                        (public_key env (key acme_client))))
       (\<lambda>verified.
     if \<not> verified then raise (ValueError ''Failed verification'')
     else call (AnswerChallenge (dns_challenge authz_record) resp)
            (answer_challenge env acme_client (dns_challenge authz_record) resp)))"

text \<open>
  \<^verbatim>\<open>def get_authorizations(acme_client, account_number, domains, dns_provider):
    authorizations = []
    for domain in domains:
        authz_record = start_dns_challenge(acme_client, account_number, domain, dns_provider)
        authorizations.append(authz_record)
    return authorizations\<close>
\<close>

fun get_authorizations_loop ::
  "'w env \<Rightarrow> acme_client \<Rightarrow> pyval \<Rightarrow> 'w dns_module \<Rightarrow> pyval list \<Rightarrow> AuthorizationRecord list \<Rightarrow>
   ('w, AuthorizationRecord list) io" where
  "get_authorizations_loop env acme_client account_number dns_provider [] authorizations =
     ret authorizations"
| "get_authorizations_loop env acme_client account_number dns_provider (domain # rest) authorizations =
     and_then (start_dns_challenge env acme_client account_number domain dns_provider)
       (\<lambda>authz_record.
          get_authorizations_loop env acme_client account_number dns_provider rest
            (authorizations @ [authz_record]))"

definition get_authorizations ::
  "'w env \<Rightarrow> acme_client \<Rightarrow> pyval \<Rightarrow> pyval \<Rightarrow> 'w dns_module \<Rightarrow> ('w, AuthorizationRecord list) io" where
  "get_authorizations env acme_client account_number domains dns_provider =
     and_then (lift (iter domains))
       (\<lambda>ds. get_authorizations_loop env acme_client account_number dns_provider ds [])"

section \<open>Finalization and cleanup\<close>

text \<open>The body of the \<open>try\<close>: the challenges are completed in order, up to the first that raises.\<close>

fun complete_all ::
  "'w env \<Rightarrow> acme_client \<Rightarrow> pyval \<Rightarrow> 'w dns_module \<Rightarrow> AuthorizationRecord list \<Rightarrow> ('w, unit) io" where
  "complete_all env acme_client account_number dns_provider [] = ret ()"
| "complete_all env acme_client account_number dns_provider (authz_record # rest) =
     and_then (complete_dns_challenge env acme_client account_number authz_record dns_provider)
       (\<lambda>_. complete_all env acme_client account_number dns_provider rest)"

text \<open>
  The body of the \<open>finally\<close>: the TXT records are deleted in order; the loop has no
  handler of its own, so a deletion that raises ends it.
\<close>

fun delete_all ::
  "'w env \<Rightarrow> acme_client \<Rightarrow> pyval \<Rightarrow> 'w dns_module \<Rightarrow> AuthorizationRecord list \<Rightarrow> ('w, unit) io" where
  "delete_all env acme_client account_number dns_provider [] = ret ()"
| "delete_all env acme_client account_number dns_provider (authz_record # rest) =
     (let dns_chall = dns_challenge authz_record in
      and_then (call (DeleteTxtRecord (change_id authz_record) account_number
                        (validation_domain_name env dns_chall (host authz_record))
                        (validation env dns_chall (key acme_client)))
                  (delete_txt_record dns_provider (change_id authz_record) account_number
                        (validation_domain_name env dns_chall (host authz_record))
                        (validation env dns_chall (key acme_client))))
        (\<lambda>_. delete_all env acme_client account_number dns_provider rest))"

text \<open>
  \<open>try: body finally: cleanup\<close>: the cleanup runs whatever the body did. When the
  cleanup raises, its exception is the one that propagates; otherwise the body's
  outcome stands.
\<close>

definition try_finally :: "('w, 'a) io \<Rightarrow> ('w, unit) io \<Rightarrow> ('w, 'a) io" where
  "try_finally body cleanup =
     (\<lambda>s. case body s of
             (r, s1) \<Rightarrow> (case cleanup s1 of
                           (Inl e, s2) \<Rightarrow> (Inl e, s2)
                         | (Inr _, s2) \<Rightarrow> (r, s2)))"

text \<open>
  \<^verbatim>\<open>def finalize_authorizations(acme_client, account_number, dns_provider, authorizations):
    try:
        for authz_record in authorizations:
            complete_dns_challenge(acme_client, account_number, authz_record, dns_provider)
    finally:
        for authz_record in authorizations:
            dns_challenge = authz_record.dns_challenge
            dns_provider.delete_txt_record(
                authz_record.change_id, account_number,
                dns_challenge.validation_domain_name(authz_record.host),
                dns_challenge.validation(acme_client.key))
    return authorizations\<close>
\<close>

definition finalize_authorizations ::
  "'w env \<Rightarrow> acme_client \<Rightarrow> pyval \<Rightarrow> 'w dns_module \<Rightarrow> AuthorizationRecord list \<Rightarrow>
   ('w, AuthorizationRecord list) io" where
  "finalize_authorizations env acme_client account_number dns_provider authorizations =
     and_then
       (try_finally (complete_all env acme_client account_number dns_provider authorizations)
                    (delete_all env acme_client account_number dns_provider authorizations))
       (\<lambda>_. ret authorizations)"

section \<open>Finalization over record objects\<close>

text \<open>
  An AuthorizationRecord is an object: the list handed to \<open>finalize_authorizations\<close>
  holds references, and an assignment to a field would be seen by every holder of the
  reference. To say what finalization does to the objects, the functions of the last
  section are given once more over references. The heap maps a reference to the fields
  of its object; reading \<open>authz_record.change_id\<close> is a lookup; an assignment to a field
  would be an update of the heap. The collaborators are handed field values, never a
  record, so the heap is not among the things they act on. Each function returns the
  heap it leaves, also when it raises.
\<close>

type_synonym ref = nat

type_synonym heap = "ref \<Rightarrow> AuthorizationRecord"

definition complete_dns_challenge_at ::
  "'w env \<Rightarrow> acme_client \<Rightarrow> pyval \<Rightarrow> ref \<Rightarrow> 'w dns_module \<Rightarrow> heap \<Rightarrow> 'w state \<Rightarrow>
   (exn + unit) \<times> 'w state \<times> heap" where
  "complete_dns_challenge_at env acme_client account_number authz_record dns_provider h s =
     (case call (WaitForDnsChange (change_id (h authz_record)) account_number)
             (wait_for_dns_change dns_provider (change_id (h authz_record)) account_number) s of
        (Inl e, s1) \<Rightarrow> (Inl e, s1, h)
      | (Inr u, s1) \<Rightarrow>
          (let resp = challenge_response env (dns_challenge (h authz_record)) (key acme_client) in
           case call (SimpleVerify resp (chall (dns_challenge (h authz_record)))
                        (host (h authz_record)) (public_key env (key acme_client)))
                  (simple_verify env resp (chall (dns_challenge (h authz_record)))
                        (host (h authz_record)) (public_key env (key acme_client))) s1 of
             (Inl e, s2) \<Rightarrow> (Inl e, s2, h)
           | (Inr verified, s2) \<Rightarrow>
               if \<not> verified then (Inl (ValueError ''Failed verification''), s2, h)
               else (case call (AnswerChallenge (dns_challenge (h authz_record)) resp)
                            (answer_challenge env acme_client (dns_challenge (h authz_record))
                               resp) s2 of
                       (r, s3) \<Rightarrow> (r, s3, h))))"

fun complete_all_at ::
  "'w env \<Rightarrow> acme_client \<Rightarrow> pyval \<Rightarrow> 'w dns_module \<Rightarrow> ref list \<Rightarrow> heap \<Rightarrow> 'w state \<Rightarrow>
   (exn + unit) \<times> 'w state \<times> heap" where
  "complete_all_at env acme_client account_number dns_provider [] h s = (Inr (), s, h)"
| "complete_all_at env acme_client account_number dns_provider (authz_record # rest) h s =
     (case complete_dns_challenge_at env acme_client account_number authz_record dns_provider h s of
        (Inl e, s1, h1) \<Rightarrow> (Inl e, s1, h1)
      | (Inr u, s1, h1) \<Rightarrow>
          complete_all_at env acme_client account_number dns_provider rest h1 s1)"

fun delete_all_at ::
  "'w env \<Rightarrow> acme_client \<Rightarrow> pyval \<Rightarrow> 'w dns_module \<Rightarrow> ref list \<Rightarrow> heap \<Rightarrow> 'w state \<Rightarrow>
   (exn + unit) \<times> 'w state \<times> heap" where
  "delete_all_at env acme_client account_number dns_provider [] h s = (Inr (), s, h)"
| "delete_all_at env acme_client account_number dns_provider (authz_record # rest) h s =
     (let dns_chall = dns_challenge (h authz_record) in
      case call (DeleteTxtRecord (change_id (h authz_record)) account_number
                   (validation_domain_name env dns_chall (host (h authz_record)))
                   (validation env dns_chall (key acme_client)))
             (delete_txt_record dns_provider (change_id (h authz_record)) account_number
                   (validation_domain_name env dns_chall (host (h authz_record)))
                   (validation env dns_chall (key acme_client))) s of
        (Inl e, s1) \<Rightarrow> (Inl e, s1, h)
      | (Inr u, s1) \<Rightarrow> delete_all_at env acme_client account_number dns_provider rest h s1)"

text \<open>
  \<open>try: ... finally: ...\<close> and \<open>return authorizations\<close>, as in
  \<open>finalize_authorizations\<close>: what is returned is the list of references.
\<close>

definition finalize_authorizations_at ::
  "'w env \<Rightarrow> acme_client \<Rightarrow> pyval \<Rightarrow> 'w dns_module \<Rightarrow> ref list \<Rightarrow> heap \<Rightarrow> 'w state \<Rightarrow>
   (exn + ref list) \<times> 'w state \<times> heap" where
  "finalize_authorizations_at env acme_client account_number dns_provider authorizations h s =
     (case complete_all_at env acme_client account_number dns_provider authorizations h s of
        (r1, s1, h1) \<Rightarrow>
          (case delete_all_at env acme_client account_number dns_provider authorizations h1 s1 of
             (Inl e, s2, h2) \<Rightarrow> (Inl e, s2, h2)
           | (Inr u, s2, h2) \<Rightarrow>
               (case r1 of
                  Inl e \<Rightarrow> (Inl e, s2, h2)
                | Inr v \<Rightarrow> (Inr authorizations, s2, h2))))"

section \<open>Certificate request\<close>

text \<open>\<open>sep.join(xs)\<close>.\<close>

fun join :: "string \<Rightarrow> string list \<Rightarrow> string" where
  "join sep [] = []"
| "join sep [x] = x"
| "join sep (x # y # zs) = x @ sep @ join sep (y # zs)"

text \<open>
  \<open>s.splitlines()\<close>: the line boundaries among the characters below 256 are line feed,
  carriage return (with a following line feed as one boundary), vertical tab, form
  feed, the file, group and record separators, and next line.
\<close>

definition line_boundary :: "char \<Rightarrow> bool" where
  "line_boundary c = (c \<in> set [CHR 0x0A, CHR 0x0D, CHR 0x0B, CHR 0x0C, CHR 0x1C, CHR 0x1D,
                                 CHR 0x1E, CHR 0x85])"

fun splitlines_from :: "string \<Rightarrow> string \<Rightarrow> string list" where
  "splitlines_from cur [] = (if cur = [] then [] else [cur])"
| "splitlines_from cur [c] = (if line_boundary c then [cur] else [cur @ [c]])"
| "splitlines_from cur (c # d # cs) =
     (if c = CHR 0x0D \<and> d = CHR 0x0A then cur # splitlines_from [] cs
      else if line_boundary c then cur # splitlines_from [] (d # cs)
      else splitlines_from (cur @ [c]) (d # cs))"

definition splitlines :: "string \<Rightarrow> string list" where
  "splitlines s = splitlines_from [] s"

fun dump_chain :: "'w env \<Rightarrow> string list \<Rightarrow> string list \<Rightarrow> string list" where
  "dump_chain env [] full_chain = full_chain"
| "dump_chain env (cert # rest) full_chain =
     dump_chain env rest (full_chain @ [dump_certificate env cert])"

text \<open>
  \<^verbatim>\<open>def request_certificate(acme_client, authorizations, csr):
    cert_response, _ = acme_client.poll_and_request_issuance(
        jose.util.ComparableX509(OpenSSL.crypto.load_certificate_request(FILETYPE_PEM, csr)),
        authzrs=[authz_record.authz for authz_record in authorizations],
        mintime=60, max_attempts=10)
    pem_certificate = OpenSSL.crypto.dump_certificate(FILETYPE_PEM, cert_response.body).decode('utf-8')
    full_chain = []
    for cert in acme_client.fetch_chain(cert_response):
        chain = OpenSSL.crypto.dump_certificate(OpenSSL.crypto.FILETYPE_PEM, cert)
        full_chain.append(chain.decode("utf-8"))
    pem_certificate_chain = "\n".join(full_chain)
    return pem_certificate, pem_certificate_chain\<close>
\<close>

definition request_certificate ::
  "'w env \<Rightarrow> acme_client \<Rightarrow> AuthorizationRecord list \<Rightarrow> pyval \<Rightarrow> ('w, string \<times> string) io" where
  "request_certificate env acme_client authorizations csr =
     and_then (lift (load_certificate_request env csr))
       (\<lambda>req.
     and_then (call (PollAndRequestIssuance req (map authz authorizations))
                 (poll_and_request_issuance env acme_client req (map authz authorizations)))
       (\<lambda>cert_response.
     let pem_certificate = dump_certificate env cert_response in
     and_then (call (FetchChain cert_response) (fetch_chain env acme_client cert_response))
       (\<lambda>certs.
     let pem_certificate_chain = join [CHR 0x0A] (dump_chain env certs []) in
     ret (pem_certificate, pem_certificate_chain))))"

section \<open>ACME client setup\<close>

text \<open>\<open>json.loads(v)\<close>: only a string can be decoded.\<close>

definition py_json_loads :: "'w env \<Rightarrow> pyval \<Rightarrow> exn + pyval" where
  "py_json_loads env v =
     (case v of
        PStr s \<Rightarrow> json_loads env s
      | _ \<Rightarrow> Inl (TypeError ''the JSON object must be str, bytes or bytearray''))"

text \<open>\<open>v.get(k)\<close>: only a dictionary has the method.\<close>

definition method_get :: "pyval \<Rightarrow> string \<Rightarrow> exn + pyval" where
  "method_get v k =
     (case v of PDict d \<Rightarrow> Inr (dict_get d k) | _ \<Rightarrow> Inl (AttributeError ''get''))"

text \<open>A list or a dictionary cannot be the key of a dictionary.\<close>

fun hashable :: "pyval \<Rightarrow> bool" where
  "hashable (PList xs) = False"
| "hashable (PDict d) = False"
| "hashable v = True"

text \<open>
  \<^verbatim>\<open>for option in json.loads(authority.options):
    options[option["name"]] = option.get("value")\<close>
  The value is evaluated before the key. The local dictionary is a map; only its string
  keys are ever looked up.
\<close>

fun collect_options :: "pyval list \<Rightarrow> (pyval \<rightharpoonup> pyval) \<Rightarrow> exn + (pyval \<rightharpoonup> pyval)" where
  "collect_options [] options = Inr options"
| "collect_options (option # rest) options =
     (case method_get option ''value'' of
        Inl e \<Rightarrow> Inl e
      | Inr v \<Rightarrow>
          (case getitem option ''name'' of
             Inl e \<Rightarrow> Inl e
           | Inr n \<Rightarrow>
               if hashable n then collect_options rest (options(n \<mapsto> v))
               else Inl (TypeError ''unhashable type'')))"

definition options_get :: "(pyval \<rightharpoonup> pyval) \<Rightarrow> string \<Rightarrow> pyval \<Rightarrow> pyval" where
  "options_get options k dflt = (case options (PStr k) of None \<Rightarrow> dflt | Some v \<Rightarrow> v)"

text \<open>
  \<^verbatim>\<open>def setup_acme_client(authority):
    if not authority.options:
        raise InvalidAuthority("Invalid authority. Options not set")
    options = {}
    for option in json.loads(authority.options):
        options[option["name"]] = option.get("value")
    email = options.get('email', current_app.config.get('ACME_EMAIL'))
    tel = options.get('telephone', current_app.config.get('ACME_TEL'))
    directory_url = options.get('acme_url', current_app.config.get('ACME_DIRECTORY_URL'))
    key = jose.JWKRSA(key=generate_private_key('RSA2048'))
    client = Client(directory_url, key)
    registration = client.register(messages.NewRegistration.from_data(email=email))
    client.agree_to_tos(registration)
    return client, registration\<close>
\<close>

definition setup_acme_client :: "'w env \<Rightarrow> pyval \<Rightarrow> ('w, acme_client \<times> string) io" where
  "setup_acme_client env authority =
     and_then (lift (getattr authority ''options''))
       (\<lambda>authority_options.
     if \<not> truthy authority_options
     then raise (InvalidAuthority ''Invalid authority. Options not set'')
     else
     and_then (lift (py_json_loads env authority_options))
       (\<lambda>decoded.
     and_then (lift (iter decoded))
       (\<lambda>option_list.
     and_then (lift (collect_options option_list Map.empty))
       (\<lambda>options.
     let email = options_get options ''email'' (dict_get (config env) ''ACME_EMAIL'');
         tel = options_get options ''telephone'' (dict_get (config env) ''ACME_TEL'');
         directory_url =
           options_get options ''acme_url'' (dict_get (config env) ''ACME_DIRECTORY_URL'') in
     and_then (call (GeneratePrivateKey ''RSA2048'') (generate_private_key env ''RSA2048''))
       (\<lambda>k.
     and_then (call (ClientInit directory_url k) (Client env directory_url k))
       (\<lambda>_.
     let client = \<lparr>directory = directory_url, key = k\<rparr> in
     and_then (lift (registration_from_data env email))
       (\<lambda>new_registration.
     and_then (call (Register new_registration) (register env client new_registration))
       (\<lambda>registration.
     and_then (call (AgreeToTos registration) (agree_to_tos env client registration))
       (\<lambda>_.
     ret (client, registration))))))))))"

section \<open>The issuer plugin\<close>

text \<open>
  \<^verbatim>\<open>def get_dns_provider(self, type):
    provider_types = {'cloudflare': cloudflare, 'dyn': dyn, 'route53': route53}
    provider = provider_types.get(type)
    if not provider:
        raise UnknownProvider("No such DNS provider: {}".format(type))
    return provider\<close>
\<close>

definition get_dns_provider :: "'w env \<Rightarrow> pyval \<Rightarrow> exn + 'w dns_module" where
  "get_dns_provider env type =
     (if \<not> hashable type then Inl (TypeError ''unhashable type'')
      else if type = PStr ''cloudflare'' then Inr (cloudflare env)
      else if type = PStr ''dyn'' then Inr (dyn env)
      else if type = PStr ''route53'' then Inr (route53 env)
      else Inl (UnknownProvider (''No such DNS provider: '' @ py_str env type)))"

text \<open>The exception classes named in the plugin's \<open>except\<close> clauses.\<close>

datatype exn_class = CException | CValueError | CClientError | CPollError | CAcmeError

fun isinstance :: "exn \<Rightarrow> exn_class \<Rightarrow> bool" where
  "isinstance e CException = True"
| "isinstance (ValueError m) CValueError = True"
| "isinstance (JSONDecodeError m) CValueError = True"
| "isinstance (ClientError m) CClientError = True"
| "isinstance (PollError m) CPollError = True"
| "isinstance (AcmeError m) CAcmeError = True"
| "isinstance e c = False"

text \<open>
  \<open>try: body except classes: handler\<close>, followed by the rest of the function: the
  handler runs for an exception of one of the classes, any other exception propagates,
  and the rest runs when the body raised nothing.
\<close>

definition try_except ::
  "('w, 'a) io \<Rightarrow> exn_class list \<Rightarrow> ('w, 'b) io \<Rightarrow> ('a \<Rightarrow> ('w, 'b) io) \<Rightarrow> ('w, 'b) io" where
  "try_except body classes handler rest =
     (\<lambda>s. case body s of
             (Inl e, s1) \<Rightarrow> if list_ex (isinstance e) classes then handler s1 else (Inl e, s1)
           | (Inr a, s1) \<Rightarrow> rest a s1)"

text \<open>The certificate dictionary both resolving functions build.\<close>

definition cert_dict :: "'w env \<Rightarrow> string \<Rightarrow> string \<Rightarrow> pyval \<Rightarrow> pyval" where
  "cert_dict env pem_certificate pem_certificate_chain external_id =
     PDict [(''body'', PStr (join [CHR 0x0A] (splitlines pem_certificate))),
            (''chain'', PStr (join [CHR 0x0A] (splitlines pem_certificate_chain))),
            (''external_id'', PStr (py_str env external_id))]"

text \<open>
  \<^verbatim>\<open>def get_ordered_certificate(self, pending_cert):
    acme_client, registration = setup_acme_client(pending_cert.authority)
    order_info = authorization_service.get(pending_cert.external_id)
    dns_provider = dns_provider_service.get(pending_cert.dns_provider_id)
    dns_provider_type = self.get_dns_provider(dns_provider.provider_type)
    try:
        authorizations = get_authorizations(
            acme_client, order_info.account_number, order_info.domains, dns_provider_type)
    except ClientError:
        current_app.logger.error("Unable to resolve pending cert: {}".format(pending_cert.name), exc_info=True)
        return False
    authorizations = finalize_authorizations(
        acme_client, order_info.account_number, dns_provider_type, authorizations)
    pem_certificate, pem_certificate_chain = request_certificate(acme_client, authorizations, pending_cert.csr)
    cert = {'body': ..., 'chain': ..., 'external_id': str(pending_cert.external_id)}
    return cert\<close>
\<close>

definition get_ordered_certificate :: "'w env \<Rightarrow> pyval \<Rightarrow> ('w, pyval) io" where
  "get_ordered_certificate env pending_cert =
     and_then (lift (getattr pending_cert ''authority''))
       (\<lambda>authority.
     and_then (setup_acme_client env authority)
       (\<lambda>(acme_client, registration).
     and_then (lift (getattr pending_cert ''external_id''))
       (\<lambda>external_id.
     and_then (call (AuthorizationGet external_id) (authorization_get env external_id))
       (\<lambda>order_info.
     and_then (lift (getattr pending_cert ''dns_provider_id''))
       (\<lambda>dns_provider_id.
     and_then (call (DnsProviderGet dns_provider_id) (dns_provider_get env dns_provider_id))
       (\<lambda>dns_provider.
     and_then (lift (getattr dns_provider ''provider_type''))
       (\<lambda>provider_type.
     and_then (lift (get_dns_provider env provider_type))
       (\<lambda>dns_provider_type.
     try_except
       (and_then (lift (getattr order_info ''account_number''))
          (\<lambda>account_number.
        and_then (lift (getattr order_info ''domains''))
          (\<lambda>domains.
        get_authorizations env acme_client account_number domains dns_provider_type)))
       [CClientError]
       (and_then (lift (getattr pending_cert ''name''))
          (\<lambda>pending_name.
        and_then (logger_error (''Unable to resolve pending cert: '' @ py_str env pending_name))
          (\<lambda>_. ret (PBool False))))
       (\<lambda>authorizations.
     and_then (lift (getattr order_info ''account_number''))
       (\<lambda>account_number.
     and_then (finalize_authorizations env acme_client account_number dns_provider_type
                 authorizations)
       (\<lambda>authorizations.
     and_then (lift (getattr pending_cert ''csr''))
       (\<lambda>csr.
     and_then (request_certificate env acme_client authorizations csr)
       (\<lambda>(pem_certificate, pem_certificate_chain).
     and_then (lift (getattr pending_cert ''external_id''))
       (\<lambda>external_id.
     ret (cert_dict env pem_certificate pem_certificate_chain external_id)))))))))))))))"

text \<open>
  The work item of the batch, between its two loops:
  \<^verbatim>\<open>pending.append({"acme_client": acme_client, "account_number": order_info.account_number,
    "dns_provider_type": dns_provider_type, "authorizations": authorizations,
    "pending_cert": pending_cert})\<close>
\<close>

record 'w pending_entry =
  entry_acme_client :: acme_client
  entry_account_number :: pyval
  entry_dns_provider_type :: "'w dns_module"
  entry_authorizations :: "AuthorizationRecord list"
  entry_pending_cert :: pyval

text \<open>The body of the \<open>try\<close> of the first loop of \<open>get_ordered_certificates\<close>.\<close>

definition orchestrate_pending_cert :: "'w env \<Rightarrow> pyval \<Rightarrow> ('w, 'w pending_entry) io" where
  "orchestrate_pending_cert env pending_cert =
     and_then (lift (getattr pending_cert ''authority''))
       (\<lambda>authority.
     and_then (setup_acme_client env authority)
       (\<lambda>(acme_client, registration).
     and_then (lift (getattr pending_cert ''external_id''))
       (\<lambda>external_id.
     and_then (call (AuthorizationGet external_id) (authorization_get env external_id))
       (\<lambda>order_info.
     and_then (lift (getattr pending_cert ''dns_provider_id''))
       (\<lambda>dns_provider_id.
     and_then (call (DnsProviderGet dns_provider_id) (dns_provider_get env dns_provider_id))
       (\<lambda>dns_provider.
     and_then (lift (getattr dns_provider ''provider_type''))
       (\<lambda>provider_type.
     and_then (lift (get_dns_provider env provider_type))
       (\<lambda>dns_provider_type.
     and_then (lift (getattr order_info ''account_number''))
       (\<lambda>account_number.
     and_then (lift (getattr order_info ''domains''))
       (\<lambda>domains.
     and_then (get_authorizations env acme_client account_number domains dns_provider_type)
       (\<lambda>authorizations.
     ret \<lparr>entry_acme_client = acme_client,
          entry_account_number = account_number,
          entry_dns_provider_type = dns_provider_type,
          entry_authorizations = authorizations,
          entry_pending_cert = pending_cert\<rparr>)))))))))))"

text \<open>\<open>{"cert": False, "pending_cert": pending_cert}\<close> and \<open>{"cert": cert, "pending_cert": ...}\<close>.\<close>

definition outcome :: "pyval \<Rightarrow> pyval \<Rightarrow> pyval" where
  "outcome cert pending_cert = PDict [(''cert'', cert), (''pending_cert'', pending_cert)]"

text \<open>
  The first loop:
  \<^verbatim>\<open>for pending_cert in pending_certs:
    try:
        ...
        pending.append({...})
    except (ClientError, ValueError, Exception):
        current_app.logger.error("Unable to resolve pending cert: {}".format(pending_cert), exc_info=True)
        certs.append({"cert": False, "pending_cert": pending_cert})\<close>
\<close>

fun orchestrate_loop ::
  "'w env \<Rightarrow> pyval list \<Rightarrow> 'w pending_entry list \<Rightarrow> pyval list \<Rightarrow>
   ('w, 'w pending_entry list \<times> pyval list) io" where
  "orchestrate_loop env [] pending certs = ret (pending, certs)"
| "orchestrate_loop env (pending_cert # rest) pending certs =
     try_except (orchestrate_pending_cert env pending_cert)
       [CClientError, CValueError, CException]
       (and_then (logger_error (''Unable to resolve pending cert: '' @ py_str env pending_cert))
          (\<lambda>_. orchestrate_loop env rest pending
                  (certs @ [outcome (PBool False) pending_cert])))
       (\<lambda>entry. orchestrate_loop env rest (pending @ [entry]) certs)"

text \<open>The body of the \<open>try\<close> of the second loop, up to the outcome it appends.\<close>

definition finalize_entry :: "'w env \<Rightarrow> 'w pending_entry \<Rightarrow> ('w, pyval) io" where
  "finalize_entry env entry =
     and_then (finalize_authorizations env (entry_acme_client entry) (entry_account_number entry)
                 (entry_dns_provider_type entry) (entry_authorizations entry))
       (\<lambda>authorizations.
     and_then (lift (getattr (entry_pending_cert entry) ''csr''))
       (\<lambda>csr.
     and_then (request_certificate env (entry_acme_client entry) authorizations csr)
       (\<lambda>(pem_certificate, pem_certificate_chain).
     and_then (lift (getattr (entry_pending_cert entry) ''external_id''))
       (\<lambda>external_id.
     ret (outcome (cert_dict env pem_certificate pem_certificate_chain external_id)
            (entry_pending_cert entry))))))"

text \<open>
  The second loop:
  \<^verbatim>\<open>for entry in pending:
    try:
        entry["authorizations"] = finalize_authorizations(...)
        pem_certificate, pem_certificate_chain = request_certificate(...)
        cert = {...}
        certs.append({"cert": cert, "pending_cert": entry["pending_cert"]})
    except (PollError, AcmeError, Exception):
        current_app.logger.error("Unable to resolve pending cert: {}".format(pending_cert), exc_info=True)
        certs.append({"cert": False, "pending_cert": entry["pending_cert"]})\<close>
  The message of its handler formats the variable \<open>pending_cert\<close>, which the first loop
  left at the last pending certificate.
\<close>

fun finalize_loop ::
  "'w env \<Rightarrow> pyval \<Rightarrow> 'w pending_entry list \<Rightarrow> pyval list \<Rightarrow> ('w, pyval list) io" where
  "finalize_loop env pending_cert [] certs = ret certs"
| "finalize_loop env pending_cert (entry # rest) certs =
     try_except (finalize_entry env entry)
       [CPollError, CAcmeError, CException]
       (and_then (logger_error (''Unable to resolve pending cert: '' @ py_str env pending_cert))
          (\<lambda>_. finalize_loop env pending_cert rest
                  (certs @ [outcome (PBool False) (entry_pending_cert entry)])))
       (\<lambda>result. finalize_loop env pending_cert rest (certs @ [result]))"

text \<open>
  \<^verbatim>\<open>def get_ordered_certificates(self, pending_certs):
    pending = []
    certs = []
    for pending_cert in pending_certs: ...
    for entry in pending: ...
    return certs\<close>
  With no pending certificate the second loop has no entry and its handler's variable is
  never read.
\<close>

definition get_ordered_certificates :: "'w env \<Rightarrow> pyval list \<Rightarrow> ('w, pyval list) io" where
  "get_ordered_certificates env pending_certs =
     and_then (orchestrate_loop env pending_certs [] [])
       (\<lambda>(pending, certs).
          finalize_loop env (if pending_certs = [] then PNone else last pending_certs)
            pending certs)"

text \<open>
  \<^verbatim>\<open>authz_domains = []
for d in domains:
    if type(d) == str:
        authz_domains.append(d)
    else:
        authz_domains.append(d.value)\<close>
\<close>

fun flatten_domains :: "pyval list \<Rightarrow> pyval list \<Rightarrow> exn + pyval list" where
  "flatten_domains [] authz_domains = Inr authz_domains"
| "flatten_domains (d # rest) authz_domains =
     (case d of
        PStr _ \<Rightarrow> flatten_domains rest (authz_domains @ [d])
      | _ \<Rightarrow> (case getattr d ''value'' of
                Inl e \<Rightarrow> Inl e
              | Inr v \<Rightarrow> flatten_domains rest (authz_domains @ [v])))"

text \<open>
  \<open>__import__(name, globals(), locals(), [], 1)\<close>: the module of that name beside the
  plugin; the name has to be a string.
\<close>

definition import_provider :: "'w env \<Rightarrow> pyval \<Rightarrow> exn + 'w dns_module" where
  "import_provider env name =
     (case name of
        PStr n \<Rightarrow> import_relative env n
      | _ \<Rightarrow> Inl (TypeError ''__import__() argument 1 must be str''))"

text \<open>
  \<^verbatim>\<open>def create_certificate(self, csr, issuer_options):
    authority = issuer_options.get('authority')
    create_immediately = issuer_options.get('create_immediately', False)
    acme_client, registration = setup_acme_client(authority)
    dns_provider = issuer_options.get('dns_provider')
    if not dns_provider:
        raise InvalidConfiguration("DNS Provider setting is required for ACME certificates.")
    credentials = json.loads(dns_provider.credentials)
    current_app.logger.debug("Using DNS provider: {0}".format(dns_provider.provider_type))
    dns_provider_type = __import__(dns_provider.provider_type, globals(), locals(), [], 1)
    account_number = credentials.get("account_id")
    if dns_provider.provider_type == 'route53' and not account_number:
        error = "Route53 DNS Provider {} does not have an account number configured.".format(dns_provider.name)
        current_app.logger.error(error)
        raise InvalidConfiguration(error)
    domains = get_domains(issuer_options)
    if not create_immediately:
        authz_domains = [...]
        dns_authorization = authorization_service.create(account_number, authz_domains, dns_provider.provider_type)
        return None, None, dns_authorization.id
    authorizations = get_authorizations(acme_client, account_number, domains, dns_provider_type)
    finalize_authorizations(acme_client, account_number, dns_provider_type, authorizations)
    pem_certificate, pem_certificate_chain = request_certificate(acme_client, authorizations, csr)
    return pem_certificate, pem_certificate_chain, None\<close>
\<close>

definition create_certificate ::
  "'w env \<Rightarrow> pyval \<Rightarrow> (string \<times> pyval) list \<Rightarrow> ('w, pyval \<times> pyval \<times> pyval) io" where
  "create_certificate env csr issuer_options =
     (let authority = dict_get issuer_options ''authority'';
          create_immediately = dict_get_default issuer_options ''create_immediately'' (PBool False) in
      and_then (setup_acme_client env authority)
        (\<lambda>(acme_client, registration).
      let dns_provider = dict_get issuer_options ''dns_provider'' in
      if \<not> truthy dns_provider
      then raise (InvalidConfiguration ''DNS Provider setting is required for ACME certificates.'')
      else
      and_then (lift (getattr dns_provider ''credentials''))
        (\<lambda>credentials_text.
      and_then (lift (py_json_loads env credentials_text))
        (\<lambda>credentials.
      and_then (lift (getattr dns_provider ''provider_type''))
        (\<lambda>provider_type.
      and_then (lift (import_provider env provider_type))
        (\<lambda>dns_provider_type.
      and_then (lift (method_get credentials ''account_id''))
        (\<lambda>account_number.
      if provider_type = PStr ''route53'' \<and> \<not> truthy account_number
      then
        and_then (lift (getattr dns_provider ''name''))
          (\<lambda>provider_name.
        let error = ''Route53 DNS Provider '' @ py_str env provider_name @
                    '' does not have an account number configured.'' in
        and_then (logger_error error)
          (\<lambda>_. raise (InvalidConfiguration error)))
      else
      and_then (lift (get_domains issuer_options))
        (\<lambda>domains.
      if \<not> truthy create_immediately
      then
        and_then (lift (flatten_domains domains []))
          (\<lambda>authz_domains.
        and_then (call (AuthorizationCreate account_number authz_domains provider_type)
                    (authorization_create env account_number authz_domains provider_type))
          (\<lambda>dns_authorization.
        and_then (lift (getattr dns_authorization ''id''))
          (\<lambda>authorization_id.
        ret (PNone, PNone, authorization_id))))
      else
      and_then (get_authorizations env acme_client account_number (PList domains)
                  dns_provider_type)
        (\<lambda>authorizations.
      and_then (finalize_authorizations env acme_client account_number dns_provider_type
                  authorizations)
        (\<lambda>_.
      and_then (request_certificate env acme_client authorizations csr)
        (\<lambda>(pem_certificate, pem_certificate_chain).
      ret (PStr pem_certificate, PStr pem_certificate_chain, PNone))))))))))))"

section \<open>Vocabulary of the properties\<close>

text \<open>The calls of the trace that delete a TXT record.\<close>

definition is_delete :: "event \<Rightarrow> bool" where
  "is_delete ev = (case ev of DeleteTxtRecord cid account n v \<Rightarrow> True | _ \<Rightarrow> False)"

text \<open>
  The deletion a record is due: its change id, and the validation domain name and
  validation value computed again from its challenge, its host and the client's key.
\<close>

definition delete_call :: "'w env \<Rightarrow> acme_client \<Rightarrow> pyval \<Rightarrow> AuthorizationRecord \<Rightarrow> event" where
  "delete_call env acme_client account_number authz_record =
     DeleteTxtRecord (change_id authz_record) account_number
       (validation_domain_name env (dns_challenge authz_record) (host authz_record))
       (validation env (dns_challenge authz_record) (key acme_client))"

text \<open>The deletion of one record, as the provider module is called for it.\<close>

definition delete_result ::
  "'w env \<Rightarrow> acme_client \<Rightarrow> pyval \<Rightarrow> 'w dns_module \<Rightarrow> AuthorizationRecord \<Rightarrow> 'w \<Rightarrow> exn + unit" where
  "delete_result env acme_client account_number dns_provider authz_record w =
     fst (delete_txt_record dns_provider (change_id authz_record) account_number
            (validation_domain_name env (dns_challenge authz_record) (host authz_record))
            (validation env (dns_challenge authz_record) (key acme_client)) w)"

text \<open>A challenge combination that is a single DNS-01 challenge.\<close>

definition single_dns01 :: "challb list \<Rightarrow> bool" where
  "single_dns01 combo = (case combo of [c] \<Rightarrow> is_DNS01 (chall c) | _ \<Rightarrow> False)"

text \<open>
  The calls that are DNS challenge orchestration, finalization or certificate issuance:
  every call to a DNS provider module, and the CA's challenge and issuance calls.
\<close>

definition is_issuance_work :: "event \<Rightarrow> bool" where
  "is_issuance_work ev =
     (case ev of
        RequestDomainChallenges h \<Rightarrow> True
      | CreateTxtRecord n v account \<Rightarrow> True
      | WaitForDnsChange cid account \<Rightarrow> True
      | SimpleVerify resp c h pk \<Rightarrow> True
      | AnswerChallenge c resp \<Rightarrow> True
      | DeleteTxtRecord cid account n v \<Rightarrow> True
      | PollAndRequestIssuance req authzs \<Rightarrow> True
      | FetchChain cert \<Rightarrow> True
      | _ \<Rightarrow> False)"

text \<open>The calls that create an authorization-tracking record.\<close>

definition is_authorization_create :: "event \<Rightarrow> bool" where
  "is_authorization_create ev =
     (case ev of AuthorizationCreate account domains provider \<Rightarrow> True | _ \<Rightarrow> False)"

text \<open>
  A domain of the request, flattened: a string stands for itself, a name object for its
  \<open>value\<close>.
\<close>

definition domain_name :: "pyval \<Rightarrow> pyval" where
  "domain_name d =
     (case d of PStr s \<Rightarrow> PStr s | PObj attrs \<Rightarrow> dict_get attrs ''value'' | _ \<Rightarrow> PNone)"

text \<open>
  The batch as the specification words it, item by item. First every pending
  certificate is orchestrated, in order; the result of an item is the exception its
  orchestration raised (which is logged) or the work item it produced.
\<close>

fun orchestration_results ::
  "'w env \<Rightarrow> pyval list \<Rightarrow> 'w state \<Rightarrow> (pyval \<times> (exn + 'w pending_entry)) list \<times> 'w state" where
  "orchestration_results env [] s = ([], s)"
| "orchestration_results env (pending_cert # rest) s =
     (case orchestrate_pending_cert env pending_cert s of
        (Inl e, (w1, tr1)) \<Rightarrow>
          (case orchestration_results env rest
                  (w1, tr1 @ [LoggerError (''Unable to resolve pending cert: '' @
                                            py_str env pending_cert)]) of
             (rs, s2) \<Rightarrow> ((pending_cert, Inl e) # rs, s2))
      | (Inr entry, s1) \<Rightarrow>
          (case orchestration_results env rest s1 of
             (rs, s2) \<Rightarrow> ((pending_cert, Inr entry) # rs, s2)))"

text \<open>The pending certificates whose orchestration raised, and the work items of the others.\<close>

fun failures :: "(pyval \<times> (exn + 'e)) list \<Rightarrow> pyval list" where
  "failures [] = []"
| "failures ((pending_cert, Inl e) # rs) = pending_cert # failures rs"
| "failures ((pending_cert, Inr entry) # rs) = failures rs"

fun orchestrated :: "(pyval \<times> (exn + 'e)) list \<Rightarrow> 'e list" where
  "orchestrated [] = []"
| "orchestrated ((pending_cert, Inl e) # rs) = orchestrated rs"
| "orchestrated ((pending_cert, Inr entry) # rs) = entry # orchestrated rs"

text \<open>
  Then every work item is finalized and its certificate requested, in order; the
  outcome of an item is the record with its certificate, or, when the finalization or
  the issuance raised (which is logged, with the name the message formats), the record
  with \<open>False\<close>.
\<close>

fun finalization_results ::
  "'w env \<Rightarrow> pyval \<Rightarrow> 'w pending_entry list \<Rightarrow> 'w state \<Rightarrow> pyval list \<times> 'w state" where
  "finalization_results env logged [] s = ([], s)"
| "finalization_results env logged (entry # rest) s =
     (case finalize_entry env entry s of
        (Inl e, (w1, tr1)) \<Rightarrow>
          (case finalization_results env logged rest
                  (w1, tr1 @ [LoggerError (''Unable to resolve pending cert: '' @
                                            py_str env logged)]) of
             (os, s2) \<Rightarrow> (outcome (PBool False) (entry_pending_cert entry) # os, s2))
      | (Inr result, s1) \<Rightarrow>
          (case finalization_results env logged rest s1 of
             (os, s2) \<Rightarrow> (result # os, s2)))"

text \<open>The two fields of an outcome record.\<close>

definition pending_cert_of :: "pyval \<Rightarrow> pyval" where
  "pending_cert_of c = (case c of PDict d \<Rightarrow> dict_get d ''pending_cert'' | _ \<Rightarrow> PNone)"

definition cert_of :: "pyval \<Rightarrow> pyval" where
  "cert_of c = (case c of PDict d \<Rightarrow> dict_get d ''cert'' | _ \<Rightarrow> PNone)"

text \<open>A certificate dictionary: a body, a chain and an external id, all strings.\<close>

definition is_cert_dict :: "pyval \<Rightarrow> bool" where
  "is_cert_dict c =
     (case c of
        PDict [(k1, PStr b), (k2, PStr ch), (k3, PStr x)] \<Rightarrow>
          k1 = ''body'' \<and> k2 = ''chain'' \<and> k3 = ''external_id''
      | _ \<Rightarrow> False)"

section \<open>A concrete world\<close>

text \<open>
  A small deterministic CA, DNS provider and service layer, over a world with no state
  of its own, on which the properties are run. Its failures are chosen by host name:
  the CA offers no DNS-01 challenge for \<open>nodns.example.com\<close> and two for
  \<open>ambiguous.example.com\<close>, rejects the answer for \<open>rejected.example.com\<close>, and the
  local verification fails for \<open>unverified.example.com\<close>; the DNS provider raises
  \<open>ClientError\<close> on creating the record of \<open>throttled.example.com\<close>, on waiting for
  that of \<open>slow.example.com\<close> and on deleting that of \<open>stuck.example.com\<close>. The
  registration message of an e-mail is the e-mail when it is a string or \<open>None\<close>;
  any other value has no \<open>split\<close> and raises \<open>AttributeError\<close>.
\<close>

definition demo_str :: "pyval \<Rightarrow> string" where
  "demo_str v = (case v of PStr s \<Rightarrow> s | PNone \<Rightarrow> ''None'' | _ \<Rightarrow> ''<object>'')"

definition demo_challb :: "string \<Rightarrow> challb" where
  "demo_challb h = \<lparr>chall = DNS01 (''token-'' @ h), uri = ''https://ca.example/chall/dns/'' @ h\<rparr>"

definition demo_http_challb :: "string \<Rightarrow> challb" where
  "demo_http_challb h =
     \<lparr>chall = HTTP01 (''token-'' @ h), uri = ''https://ca.example/chall/http/'' @ h\<rparr>"

definition demo_authz :: "string \<Rightarrow> authz" where
  "demo_authz h =
     \<lparr>authz_uri = ''https://ca.example/authz/'' @ h,
      resolved_combinations =
        (if h = ''nodns.example.com'' then [[demo_http_challb h]]
         else if h = ''ambiguous.example.com'' then [[demo_challb h], [demo_challb h]]
         else [[demo_http_challb h], [demo_challb h], [demo_http_challb h, demo_challb h]])\<rparr>"

definition demo_dns :: "unit dns_module" where
  "demo_dns =
     \<lparr>create_txt_record = (\<lambda>n v account w.
        if n = ''_acme-challenge.throttled.example.com'' then (Inl (ClientError ''Throttling''), w)
        else (Inr (PStr (''change:'' @ n)), w)),
      wait_for_dns_change = (\<lambda>cid account w.
        if cid = PStr ''change:_acme-challenge.slow.example.com''
        then (Inl (ClientError ''Timeout''), w) else (Inr (), w)),
      delete_txt_record = (\<lambda>cid account n v w.
        if cid = PStr ''change:_acme-challenge.stuck.example.com''
        then (Inl (ClientError ''AccessDenied''), w) else (Inr (), w))\<rparr>"

definition demo_json_loads :: "string \<Rightarrow> exn + pyval" where
  \<open>demo_json_loads s =
     (if s = ''[]'' then Inr (PList [])
      else if s = ''{}'' then Inr (PDict [])
      else if s = ''[{"name": "acme_url", "value": "https://ca.example/directory"}]''
        then Inr (PList [PDict [(''name'', PStr ''acme_url''),
                                (''value'', PStr ''https://ca.example/directory'')]])
      else if s = ''[{"name": "email", "value": "a@b.com"}]''
        then Inr (PList [PDict [(''name'', PStr ''email''), (''value'', PStr ''a@b.com'')]])
      else if s = ''{"account_id": "123"}'' then Inr (PDict [(''account_id'', PStr ''123'')])
      else Inl (JSONDecodeError ''Expecting value''))\<close>

definition demo_order :: "pyval \<Rightarrow> pyval" where
  "demo_order external_id =
     (if external_id = PStr ''order-ok''
        then PObj [(''account_number'', PStr ''123''),
                   (''domains'', PList [PStr ''example.com'', PStr ''www.example.com''])]
      else if external_id = PStr ''order-throttled''
        then PObj [(''account_number'', PStr ''123''),
                   (''domains'', PList [PStr ''throttled.example.com''])]
      else if external_id = PStr ''order-slow''
        then PObj [(''account_number'', PStr ''123''),
                   (''domains'', PList [PStr ''slow.example.com''])]
      else PNone)"

definition demo_env :: "unit env" where
  "demo_env =
     \<lparr>config = [(''ACME_DIRECTORY_URL'', PStr ''https://default-ca.example/directory''),
                (''ACME_EMAIL'', PStr ''ops@example.com'')],
      json_loads = demo_json_loads,
      py_str = demo_str,
      validation_domain_name = (\<lambda>c h. ''_acme-challenge.'' @ demo_str h),
      validation = (\<lambda>c k. (case chall c of DNS01 t \<Rightarrow> t | _ \<Rightarrow> []) @ ''.'' @ k),
      challenge_response = (\<lambda>c k. (case chall c of DNS01 t \<Rightarrow> t | _ \<Rightarrow> []) @ ''.'' @ k),
      public_key = (\<lambda>k. ''public-'' @ k),
      registration_from_data =
        (\<lambda>email. case email of
                    PNone \<Rightarrow> Inr PNone
                  | PStr a \<Rightarrow> Inr (PStr a)
                  | _ \<Rightarrow> Inl (AttributeError ''split'')),
      load_certificate_request =
        (\<lambda>csr. case csr of PStr s \<Rightarrow> Inr s | _ \<Rightarrow> Inl (TypeError ''csr'')),
      dump_certificate = (\<lambda>c. ''PEM '' @ c),
      generate_private_key = (\<lambda>alg w. (Inr ''account-key'', w)),
      Client = (\<lambda>url k w. (Inr (), w)),
      register = (\<lambda>cl email w. (Inr ''https://ca.example/reg/1'', w)),
      agree_to_tos = (\<lambda>cl reg w. (Inr (), w)),
      request_domain_challenges = (\<lambda>cl h w. (Inr (demo_authz (demo_str h)), w)),
      simple_verify = (\<lambda>resp c h pk w. (Inr (h \<noteq> PStr ''unverified.example.com''), w)),
      answer_challenge = (\<lambda>cl c resp w.
        if uri c = ''https://ca.example/chall/dns/rejected.example.com''
        then (Inl (AcmeError ''rejected''), w) else (Inr (), w)),
      poll_and_request_issuance = (\<lambda>cl req authzs w. (Inr ''leaf'', w)),
      fetch_chain = (\<lambda>cl cert w. (Inr [''intermediate'', ''root''], w)),
      authorization_get = (\<lambda>external_id w. (Inr (demo_order external_id), w)),
      authorization_create = (\<lambda>account domains provider w. (Inr (PObj [(''id'', PInt 7)]), w)),
      dns_provider_get = (\<lambda>provider_id w. (Inr (PObj [(''provider_type'', PStr ''route53'')]), w)),
      import_relative = (\<lambda>n. if n = ''cloudflare'' \<or> n = ''dyn'' \<or> n = ''route53''
                              then Inr demo_dns else Inl (ImportError n)),
      cloudflare = demo_dns,
      dyn = demo_dns,
      route53 = demo_dns\<rparr>"

definition demo_client :: acme_client where
  "demo_client = \<lparr>directory = PStr ''https://ca.example/directory'', key = ''account-key''\<rparr>"

text \<open>The record \<open>start_dns_challenge\<close> builds for a host in this world.\<close>

definition demo_record :: "string \<Rightarrow> AuthorizationRecord" where
  "demo_record h =
     \<lparr>host = PStr h, authz = demo_authz h, dns_challenge = demo_challb h,
      change_id = PStr (''change:_acme-challenge.'' @ h)\<rparr>"

text \<open>The calls a completed challenge and a deletion leave in the trace, for a host.\<close>

definition demo_completed :: "string \<Rightarrow> event list" where
  "demo_completed h =
     [WaitForDnsChange (PStr (''change:_acme-challenge.'' @ h)) (PStr ''123''),
      SimpleVerify (''token-'' @ h @ ''.account-key'') (DNS01 (''token-'' @ h)) (PStr h)
        ''public-account-key'',
      AnswerChallenge (demo_challb h) (''token-'' @ h @ ''.account-key'')]"

definition demo_deleted :: "string \<Rightarrow> event" where
  "demo_deleted h =
     DeleteTxtRecord (PStr (''change:_acme-challenge.'' @ h)) (PStr ''123'')
       (''_acme-challenge.'' @ h) (''token-'' @ h @ ''.account-key'')"

text \<open>A heap with two record objects.\<close>

definition demo_heap :: heap where
  "demo_heap r =
     (if r = 0 then demo_record ''example.com'' else demo_record ''unverified.example.com'')"

text \<open>A pending certificate of this world, by the external id of its order.\<close>

definition demo_pending_cert :: "string \<Rightarrow> pyval" where
  "demo_pending_cert order_id =
     PObj [(''authority'', PObj [(''options'', PStr ''[]'')]),
           (''external_id'', PStr order_id),
           (''dns_provider_id'', PInt 1),
           (''csr'', PStr ''csr''),
           (''name'', PStr (''cert-of-'' @ order_id))]"

section \<open>Evaluation rules\<close>

lemmas io_defs = and_then_def call_def ret_def raise_def lift_def logger_error_def
  try_finally_def try_except_def

lemmas demo_defs = demo_env_def demo_dns_def demo_client_def demo_record_def demo_challb_def
  demo_http_challb_def demo_authz_def demo_str_def demo_json_loads_def demo_order_def

section \<open>Properties of get_domains\<close>

lemma append_each_eq: "append_each domains ns = domains @ ns"
  by (induction ns arbitrary: domains) simp_all

text \<open>
  C8. For an options mapping with a \<open>common_name\<close>: when \<open>extensions\<close> is absent the
  result is exactly \<open>[common_name]\<close>; when \<open>extensions.sub_alt_names.names\<close> is a list,
  the result is \<open>common_name\<close> followed by those names in their order.
\<close>

theorem get_domains_common_name_then_sans:
  assumes "map_of options ''common_name'' = Some cn"
  shows "(map_of options ''extensions'' = None \<longrightarrow> get_domains options = Inr [cn]) \<and>
         (map_of options ''extensions'' = Some (PDict ext) \<and>
          map_of ext ''sub_alt_names'' = Some (PDict san) \<and>
          map_of san ''names'' = Some (PList names) \<longrightarrow>
            get_domains options = Inr (cn # names))"
  using assms
  by (auto simp: get_domains_def dict_item_def dict_get_def append_each_eq Let_def)

theorem get_domains_common_name_then_sans_witness:
  "get_domains [(''common_name'', PStr ''example.com'')] = Inr [PStr ''example.com''] \<and>
   get_domains
     [(''common_name'', PStr ''example.com''),
      (''extensions'', PDict [(''sub_alt_names'',
          PDict [(''names'', PList [PStr ''www.example.com'', PStr ''api.example.com''])])])]
     = Inr [PStr ''example.com'', PStr ''www.example.com'', PStr ''api.example.com'']"
  using get_domains_common_name_then_sans
      [of "[(''common_name'', PStr ''example.com'')]" "PStr ''example.com''" "[]" "[]" "[]"]
    get_domains_common_name_then_sans
      [of "[(''common_name'', PStr ''example.com''),
            (''extensions'', PDict [(''sub_alt_names'',
               PDict [(''names'', PList [PStr ''www.example.com'', PStr ''api.example.com''])])])]"
          "PStr ''example.com''"
          "[(''sub_alt_names'',
               PDict [(''names'', PList [PStr ''www.example.com'', PStr ''api.example.com''])])]"
          "[(''names'', PList [PStr ''www.example.com'', PStr ''api.example.com''])]"
          "[PStr ''www.example.com'', PStr ''api.example.com'']"]
  by simp

section \<open>Cleanup after finalization\<close>

lemma complete_dns_challenge_no_delete:
  "complete_dns_challenge env cl acct r dns (w, tr) = (res, (w', tr')) \<Longrightarrow>
   filter is_delete tr' = filter is_delete tr"
  by (auto simp: complete_dns_challenge_def and_then_def call_def raise_def is_delete_def Let_def
      split: prod.splits sum.splits if_splits)

lemma complete_all_no_delete:
  "complete_all env cl acct dns auths (w, tr) = (res, (w', tr')) \<Longrightarrow>
   filter is_delete tr' = filter is_delete tr"
proof (induction auths arbitrary: w tr)
  case Nil
  then show ?case by (simp add: ret_def)
next
  case (Cons a auths)
  obtain r1 w1 tr1 where c: "complete_dns_challenge env cl acct a dns (w, tr) = (r1, (w1, tr1))"
    by (metis surj_pair)
  have d: "filter is_delete tr1 = filter is_delete tr"
    using complete_dns_challenge_no_delete [OF c] .
  show ?case
  proof (cases r1)
    case (Inl e)
    with Cons.prems c have "tr' = tr1" by (simp add: and_then_def)
    with d show ?thesis by simp
  next
    case (Inr u)
    with Cons.prems c have "complete_all env cl acct dns auths (w1, tr1) = (res, (w', tr'))"
      by (simp add: and_then_def)
    from Cons.IH [OF this] d show ?thesis by simp
  qed
qed

lemma delete_all_trace:
  "delete_all env cl acct dns auths (w, tr) = (res, (w', tr')) \<Longrightarrow>
   \<exists>n\<le>length auths. tr' = tr @ map (delete_call env cl acct) (take n auths) \<and>
     (res = Inr () \<and> n = length auths \<or>
      (\<exists>e x. 0 < n \<and> res = Inl e \<and> delete_result env cl acct dns (auths ! (n - 1)) x = Inl e))"
proof (induction auths arbitrary: w tr)
  case Nil
  then show ?case by (simp add: ret_def)
next
  case (Cons a auths)
  let ?ev = "delete_call env cl acct a"
  obtain r1 w1 where c: "delete_txt_record dns (change_id a) acct
               (validation_domain_name env (dns_challenge a) (host a))
               (validation env (dns_challenge a) (key cl)) w = (r1, w1)"
    by (metis surj_pair)
  show ?case
  proof (cases r1)
    case (Inl e)
    with Cons.prems c have "tr' = tr @ [?ev]" "res = Inl e"
      by (simp_all add: and_then_def call_def Let_def delete_call_def)
    with c Inl show ?thesis
      by (intro exI [of _ 1]) (auto simp: delete_result_def intro: exI [of _ w])
  next
    case (Inr u)
    with Cons.prems c have "delete_all env cl acct dns auths (w1, tr @ [?ev]) = (res, (w', tr'))"
      by (simp add: and_then_def call_def Let_def delete_call_def)
    from Cons.IH [OF this] obtain n where n: "n \<le> length auths"
      "tr' = (tr @ [?ev]) @ map (delete_call env cl acct) (take n auths)"
      "(res = Inr () \<and> n = length auths \<or>
      (\<exists>e x. 0 < n \<and> res = Inl e \<and> delete_result env cl acct dns (auths ! (n - 1)) x = Inl e))"
      by blast
    show ?thesis
      using n by (intro exI [of _ "Suc n"]) (auto simp: nth_Cons')
  qed
qed

section \<open>Errors of the challenge loop\<close>

lemma complete_all_append:
  "complete_all env cl acct dns (xs @ ys) s =
     and_then (complete_all env cl acct dns xs) (\<lambda>_. complete_all env cl acct dns ys) s"
proof (induction xs arbitrary: s)
  case Nil
  show ?case by (simp add: and_then_def ret_def)
next
  case (Cons x xs)
  show ?case
    by (simp add: and_then_def Cons.IH split: prod.splits sum.splits)
qed

lemma complete_all_first_error:
  assumes "k < length auths"
    and "complete_all env cl acct dns (take k auths) s = (Inr (), sk)"
    and "complete_dns_challenge env cl acct (auths ! k) dns sk = (Inl e, s1)"
  shows "complete_all env cl acct dns auths s = (Inl e, s1)"
proof -
  have "auths = take k auths @ auths ! k # drop (Suc k) auths"
    using assms(1) by (simp add: id_take_nth_drop)
  then have "complete_all env cl acct dns auths s =
             complete_all env cl acct dns (take k auths @ auths ! k # drop (Suc k) auths) s"
    by simp
  also have "\<dots> = (Inl e, s1)"
    using assms(2,3) by (simp add: complete_all_append and_then_def)
  finally show ?thesis .
qed

lemma delete_all_returns_trace:
  assumes "delete_all env cl acct dns auths s1 = (Inr (), s2)"
  shows "snd s2 = snd s1 @ map (delete_call env cl acct) auths"
proof -
  obtain w1 tr1 w2 tr2 where s: "s1 = (w1, tr1)" "s2 = (w2, tr2)"
    by (metis surj_pair)
  from delete_all_trace [of env cl acct dns auths w1 tr1 "Inr ()" w2 tr2] assms s
  show ?thesis by auto
qed

text \<open>
  C6 (as amended). When the challenges of the records before position \<open>k\<close> complete and
  the challenge of record \<open>k\<close> raises \<open>e\<close> (a failed wait, a failed local
  verification, or a submission the CA rejects), the loop stops there, so \<open>e\<close> is its
  first error. If the cleanup pass then returns, \<open>finalize_authorizations\<close> raises \<open>e\<close>,
  and by then the cleanup has called \<open>delete_txt_record\<close> for every record. If a
  deletion raises \<open>e'\<close>, it is \<open>e'\<close> that \<open>finalize_authorizations\<close> raises.
\<close>

theorem finalize_authorizations_reraises_after_cleanup:
  assumes "k < length authorizations"
    and "complete_all env acme_client account_number dns_provider (take k authorizations) s =
           (Inr (), sk)"
    and "complete_dns_challenge env acme_client account_number (authorizations ! k) dns_provider sk =
           (Inl e, s1)"
  shows "(\<forall>s2. delete_all env acme_client account_number dns_provider authorizations s1 =
                 (Inr (), s2) \<longrightarrow>
            finalize_authorizations env acme_client account_number dns_provider authorizations s =
              (Inl e, s2) \<and>
            snd s2 = snd s1 @ map (delete_call env acme_client account_number) authorizations) \<and>
         (\<forall>e' s2. delete_all env acme_client account_number dns_provider authorizations s1 =
                 (Inl e', s2) \<longrightarrow>
            finalize_authorizations env acme_client account_number dns_provider authorizations s =
              (Inl e', s2))"
proof -
  have c: "complete_all env acme_client account_number dns_provider authorizations s = (Inl e, s1)"
    using complete_all_first_error [OF assms] .
  have ok: "finalize_authorizations env acme_client account_number dns_provider authorizations s =
              (Inl e, s2) \<and>
            snd s2 = snd s1 @ map (delete_call env acme_client account_number) authorizations"
    if d: "delete_all env acme_client account_number dns_provider authorizations s1 = (Inr (), s2)"
    for s2
    using c d delete_all_returns_trace [OF d]
    by (simp add: finalize_authorizations_def and_then_def try_finally_def ret_def)
  have bad: "finalize_authorizations env acme_client account_number dns_provider authorizations s =
              (Inl e', s2)"
    if d: "delete_all env acme_client account_number dns_provider authorizations s1 = (Inl e', s2)"
    for e' s2
    using c d
    by (simp add: finalize_authorizations_def and_then_def try_finally_def ret_def)
  from ok bad show ?thesis by blast
qed

theorem finalize_authorizations_reraises_after_cleanup_witness:
  "finalize_authorizations demo_env demo_client (PStr ''123'') demo_dns
      [demo_record ''example.com'', demo_record ''unverified.example.com''] ((), []) =
   (Inl (ValueError ''Failed verification''), ((),
    [WaitForDnsChange (PStr ''change:_acme-challenge.example.com'') (PStr ''123''),
     SimpleVerify ''token-example.com.account-key'' (DNS01 ''token-example.com'')
       (PStr ''example.com'') ''public-account-key'',
     AnswerChallenge (demo_challb ''example.com'') ''token-example.com.account-key'',
     WaitForDnsChange (PStr ''change:_acme-challenge.unverified.example.com'') (PStr ''123''),
     SimpleVerify ''token-unverified.example.com.account-key''
       (DNS01 ''token-unverified.example.com'') (PStr ''unverified.example.com'')
       ''public-account-key'',
     DeleteTxtRecord (PStr ''change:_acme-challenge.example.com'') (PStr ''123'')
       ''_acme-challenge.example.com'' ''token-example.com.account-key'',
     DeleteTxtRecord (PStr ''change:_acme-challenge.unverified.example.com'') (PStr ''123'')
       ''_acme-challenge.unverified.example.com'' ''token-unverified.example.com.account-key'']))"
proof -
  let ?auths = "[demo_record ''example.com'', demo_record ''unverified.example.com'']"
  let ?sk = "((), [WaitForDnsChange (PStr ''change:_acme-challenge.example.com'') (PStr ''123''),
     SimpleVerify ''token-example.com.account-key'' (DNS01 ''token-example.com'')
       (PStr ''example.com'') ''public-account-key'',
     AnswerChallenge (demo_challb ''example.com'') ''token-example.com.account-key''])"
  let ?s1 = "((), snd ?sk @ [WaitForDnsChange (PStr ''change:_acme-challenge.unverified.example.com'') (PStr ''123''),
     SimpleVerify ''token-unverified.example.com.account-key''
       (DNS01 ''token-unverified.example.com'') (PStr ''unverified.example.com'')
       ''public-account-key''])"
  let ?s2 = "((), snd ?s1 @ [DeleteTxtRecord (PStr ''change:_acme-challenge.example.com'') (PStr ''123'')
       ''_acme-challenge.example.com'' ''token-example.com.account-key'',
     DeleteTxtRecord (PStr ''change:_acme-challenge.unverified.example.com'') (PStr ''123'')
       ''_acme-challenge.unverified.example.com'' ''token-unverified.example.com.account-key''])"
  have k: "(1::nat) < length ?auths" by simp
  have a: "complete_all demo_env demo_client (PStr ''123'') demo_dns (take 1 ?auths) ((), []) =
           (Inr (), ?sk)"
    by (simp add: complete_dns_challenge_def io_defs demo_defs Let_def)
  have b: "complete_dns_challenge demo_env demo_client (PStr ''123'') (?auths ! 1) demo_dns ?sk =
           (Inl (ValueError ''Failed verification''), ?s1)"
    by (simp add: complete_dns_challenge_def io_defs demo_defs Let_def)
  have d: "delete_all demo_env demo_client (PStr ''123'') demo_dns ?auths ?s1 = (Inr (), ?s2)"
    by (simp add: io_defs demo_defs Let_def)
  from finalize_authorizations_reraises_after_cleanup [OF k a b] d
  have "finalize_authorizations demo_env demo_client (PStr ''123'') demo_dns ?auths ((), []) =
        (Inl (ValueError ''Failed verification''), ?s2)"
    by blast
  then show ?thesis by simp
qed

text \<open>
  The claim as written fails where the cleanup raises: the local verification of the
  first record fails with \<open>ValueError\<close>, the deletion of the second record raises
  \<open>ClientError\<close>, and the caller receives the \<open>ClientError\<close>.
\<close>

theorem finalize_authorizations_reraises_counterexample:
  "complete_dns_challenge demo_env demo_client (PStr ''123'')
      (demo_record ''unverified.example.com'') demo_dns ((), []) =
   (Inl (ValueError ''Failed verification''), ((),
    [WaitForDnsChange (PStr ''change:_acme-challenge.unverified.example.com'') (PStr ''123''),
     SimpleVerify ''token-unverified.example.com.account-key''
       (DNS01 ''token-unverified.example.com'') (PStr ''unverified.example.com'')
       ''public-account-key''])) \<and>
   finalize_authorizations demo_env demo_client (PStr ''123'') demo_dns
      [demo_record ''unverified.example.com'', demo_record ''stuck.example.com''] ((), []) =
   (Inl (ClientError ''AccessDenied''), ((),
    [WaitForDnsChange (PStr ''change:_acme-challenge.unverified.example.com'') (PStr ''123''),
     SimpleVerify ''token-unverified.example.com.account-key''
       (DNS01 ''token-unverified.example.com'') (PStr ''unverified.example.com'')
       ''public-account-key'',
     DeleteTxtRecord (PStr ''change:_acme-challenge.unverified.example.com'') (PStr ''123'')
       ''_acme-challenge.unverified.example.com'' ''token-unverified.example.com.account-key'',
     DeleteTxtRecord (PStr ''change:_acme-challenge.stuck.example.com'') (PStr ''123'')
       ''_acme-challenge.stuck.example.com'' ''token-stuck.example.com.account-key'']))"
  by (simp add: finalize_authorizations_def complete_dns_challenge_def io_defs demo_defs Let_def)

section \<open>Challenge selection\<close>

lemma find_dns_challenge_in_filter:
  "find_dns_challenge_in combos = map hd (filter single_dns01 combos)"
proof (induction combos)
  case Nil
  show ?case by simp
next
  case (Cons combo combos)
  have "(length combo = 1 \<and> is_DNS01 (chall (combo ! 0))) = single_dns01 combo"
    by (cases combo) (auto simp: single_dns01_def split: list.splits)
  moreover have "single_dns01 combo \<Longrightarrow> combo ! 0 = hd combo"
    by (cases combo) (auto simp: single_dns01_def)
  ultimately show ?case using Cons.IH by simp
qed

text \<open>
  C2. Let the CA answer the challenge request for a host with the authorization \<open>a\<close>.
  When exactly one of \<open>a\<close>'s resolved combinations is a single DNS-01 challenge \<open>c\<close>,
  \<open>start_dns_challenge\<close> selects \<open>c\<close>: it creates the TXT record computed from \<open>c\<close>,
  and the record it returns carries \<open>c\<close>. When there is no such combination, or more
  than one, it raises \<open>ValueError\<close> right after the CA's answer: no TXT record is
  created and no AuthorizationRecord is returned.
\<close>

theorem start_dns_challenge_selects_single_dns01:
  assumes "request_domain_challenges env acme_client h w = (Inr a, w1)"
  shows "(\<forall>c. filter single_dns01 (resolved_combinations a) = [[c]] \<longrightarrow>
            (\<forall>cid w2.
               create_txt_record dns_provider (validation_domain_name env c h)
                 (validation env c (key acme_client)) account_number w1 = (Inr cid, w2) \<longrightarrow>
               start_dns_challenge env acme_client account_number h dns_provider (w, tr) =
                 (Inr \<lparr>host = h, authz = a, dns_challenge = c, change_id = cid\<rparr>,
                  (w2, tr @ [RequestDomainChallenges h,
                             CreateTxtRecord (validation_domain_name env c h)
                               (validation env c (key acme_client)) account_number]))) \<and>
            (\<forall>e w2.
               create_txt_record dns_provider (validation_domain_name env c h)
                 (validation env c (key acme_client)) account_number w1 = (Inl e, w2) \<longrightarrow>
               start_dns_challenge env acme_client account_number h dns_provider (w, tr) =
                 (Inl e,
                  (w2, tr @ [RequestDomainChallenges h,
                             CreateTxtRecord (validation_domain_name env c h)
                               (validation env c (key acme_client)) account_number])))) \<and>
         (length (filter single_dns01 (resolved_combinations a)) \<noteq> 1 \<longrightarrow>
            (\<exists>m. start_dns_challenge env acme_client account_number h dns_provider (w, tr) =
                   (Inl (ValueError m), (w1, tr @ [RequestDomainChallenges h]))))"
proof -
  have sel: "find_dns_challenge a = [c]" if "filter single_dns01 (resolved_combinations a) = [[c]]" for c
    using that by (simp add: find_dns_challenge_def find_dns_challenge_in_filter)
  have none: "\<exists>m. unpack_one (find_dns_challenge a) = Inl (ValueError m)"
    if "length (filter single_dns01 (resolved_combinations a)) \<noteq> 1"
  proof -
    have "length (find_dns_challenge a) \<noteq> 1"
      using that by (simp add: find_dns_challenge_def find_dns_challenge_in_filter)
    then show ?thesis
      by (cases "find_dns_challenge a" rule: unpack_one.cases) auto
  qed
  show ?thesis
    using assms sel none
    by (auto simp: start_dns_challenge_def and_then_def call_def lift_def ret_def)
qed

theorem start_dns_challenge_selects_single_dns01_witness:
  "start_dns_challenge demo_env demo_client (PStr ''123'') (PStr ''example.com'') demo_dns ((), []) =
     (Inr (demo_record ''example.com''),
      ((), [RequestDomainChallenges (PStr ''example.com''),
            CreateTxtRecord ''_acme-challenge.example.com'' ''token-example.com.account-key''
              (PStr ''123'')])) \<and>
   (\<exists>m. start_dns_challenge demo_env demo_client (PStr ''123'') (PStr ''ambiguous.example.com'')
           demo_dns ((), []) =
         (Inl (ValueError m), ((), [RequestDomainChallenges (PStr ''ambiguous.example.com'')]))) \<and>
   (\<exists>m. start_dns_challenge demo_env demo_client (PStr ''123'') (PStr ''nodns.example.com'')
           demo_dns ((), []) =
         (Inl (ValueError m), ((), [RequestDomainChallenges (PStr ''nodns.example.com'')])))"
proof -
  have r1: "request_domain_challenges demo_env demo_client (PStr ''example.com'') () =
            (Inr (demo_authz ''example.com''), ())"
    by (simp add: demo_defs)
  have f1: "filter single_dns01 (resolved_combinations (demo_authz ''example.com'')) =
            [[demo_challb ''example.com'']]"
    by (simp add: demo_defs single_dns01_def)
  have c1: "create_txt_record demo_dns
              (validation_domain_name demo_env (demo_challb ''example.com'') (PStr ''example.com''))
              (validation demo_env (demo_challb ''example.com'') (key demo_client))
              (PStr ''123'') () = (Inr (PStr ''change:_acme-challenge.example.com''), ())"
    by (simp add: demo_defs)
  from start_dns_challenge_selects_single_dns01
         [OF r1, where dns_provider = demo_dns and account_number = "PStr ''123''" and tr = "[]"]
       f1 c1
  have "start_dns_challenge demo_env demo_client (PStr ''123'') (PStr ''example.com'') demo_dns
          ((), []) =
        (Inr \<lparr>host = PStr ''example.com'', authz = demo_authz ''example.com'',
              dns_challenge = demo_challb ''example.com'',
              change_id = PStr ''change:_acme-challenge.example.com''\<rparr>,
         ((), [] @ [RequestDomainChallenges (PStr ''example.com''),
            CreateTxtRecord
              (validation_domain_name demo_env (demo_challb ''example.com'') (PStr ''example.com''))
              (validation demo_env (demo_challb ''example.com'') (key demo_client))
              (PStr ''123'')]))"
    by blast
  then have one: "start_dns_challenge demo_env demo_client (PStr ''123'') (PStr ''example.com'')
          demo_dns ((), []) =
     (Inr (demo_record ''example.com''),
      ((), [RequestDomainChallenges (PStr ''example.com''),
            CreateTxtRecord ''_acme-challenge.example.com'' ''token-example.com.account-key''
              (PStr ''123'')]))"
    by (simp add: demo_defs)
  have r2: "request_domain_challenges demo_env demo_client (PStr ''ambiguous.example.com'') () =
            (Inr (demo_authz ''ambiguous.example.com''), ())"
    by (simp add: demo_defs)
  have f2: "length (filter single_dns01 (resolved_combinations (demo_authz ''ambiguous.example.com'')))
            \<noteq> 1"
    by (simp add: demo_defs single_dns01_def)
  from start_dns_challenge_selects_single_dns01
         [OF r2, where dns_provider = demo_dns and account_number = "PStr ''123''" and tr = "[]"]
       f2
  have two: "\<exists>m. start_dns_challenge demo_env demo_client (PStr ''123'')
               (PStr ''ambiguous.example.com'') demo_dns ((), []) =
         (Inl (ValueError m), ((), [RequestDomainChallenges (PStr ''ambiguous.example.com'')]))"
    by simp
  have r3: "request_domain_challenges demo_env demo_client (PStr ''nodns.example.com'') () =
            (Inr (demo_authz ''nodns.example.com''), ())"
    by (simp add: demo_defs)
  have f3: "length (filter single_dns01 (resolved_combinations (demo_authz ''nodns.example.com'')))
            \<noteq> 1"
    by (simp add: demo_defs single_dns01_def)
  from start_dns_challenge_selects_single_dns01
         [OF r3, where dns_provider = demo_dns and account_number = "PStr ''123''" and tr = "[]"]
       f3
  have three: "\<exists>m. start_dns_challenge demo_env demo_client (PStr ''123'')
               (PStr ''nodns.example.com'') demo_dns ((), []) =
         (Inl (ValueError m), ((), [RequestDomainChallenges (PStr ''nodns.example.com'')]))"
    by simp
  from one two three show ?thesis by blast
qed

section \<open>Sequencing rules\<close>

lemma and_then_lift [simp]:
  "and_then (lift r) f s = (case r of Inl e \<Rightarrow> (Inl e, s) | Inr a \<Rightarrow> f a s)"
  by (simp add: and_then_def lift_def split: sum.splits)

lemma and_then_ret [simp]: "and_then (ret a) f s = f a s"
  by (simp add: and_then_def ret_def)

lemma and_then_raise [simp]: "and_then (raise e) f s = (Inl e, s)"
  by (simp add: and_then_def raise_def)

lemma and_then_call:
  "and_then (call ev g) f (w, tr) =
     (case g w of (Inl e, w') \<Rightarrow> (Inl e, (w', tr @ [ev])) | (Inr a, w') \<Rightarrow> f a (w', tr @ [ev]))"
  by (simp add: and_then_def call_def split: prod.splits sum.splits)

lemma and_then_logger_error [simp]:
  "and_then (logger_error msg) f (w, tr) = f () (w, tr @ [LoggerError msg])"
  by (simp add: and_then_def logger_error_def)

lemma raise_apply [simp]: "raise e s = (Inl e, s)"
  by (simp add: raise_def)

lemma ret_apply [simp]: "ret a s = (Inr a, s)"
  by (simp add: ret_def)

section \<open>Client setup\<close>

lemma collect_options_keeps_absent:
  assumes "collect_options items m = Inr options"
    and "\<forall>item\<in>set items. getitem item ''name'' \<noteq> Inr (PStr k)"
    and "m (PStr k) = None"
  shows "options (PStr k) = None"
  using assms
proof (induction items arbitrary: m)
  case Nil
  then show ?case by simp
next
  case (Cons item items)
  from Cons.prems(1) obtain v n where
    v: "method_get item ''value'' = Inr v" and n: "getitem item ''name'' = Inr n"
    and h: "hashable n" and rest: "collect_options items (m(n \<mapsto> v)) = Inr options"
    by (auto split: sum.splits if_splits)
  from Cons.prems(2) n have "n \<noteq> PStr k" by auto
  with Cons.prems(3) have "(m(n \<mapsto> v)) (PStr k) = None" by simp
  with Cons.IH [OF rest] Cons.prems(2) show ?case by simp
qed

text \<open>
  C4 (as amended). Let the authority's \<open>options\<close> be \<open>v\<close>. When \<open>v\<close> is absent or
  empty, \<open>setup_acme_client\<close> raises \<open>InvalidAuthority\<close> and nothing has been called.
  When the JSON decoder rejects \<open>v\<close>, or what it decodes to cannot be iterated, or an
  element of it is not a dictionary with a hashable \<open>name\<close>, the call raises the error
  of the decoder or of the loop over the options (not \<open>InvalidAuthority\<close>), again
  before anything is called. When the loop over the options ends and none of them is
  named \<open>acme_url\<close>, the call does not fail for that: the directory URL is the
  configuration's \<open>ACME_DIRECTORY_URL\<close>, and the client is created with it.
\<close>

theorem setup_acme_client_option_failures:
  assumes "getattr authority ''options'' = Inr v"
  shows "(\<not> truthy v \<longrightarrow>
            setup_acme_client env authority s =
              (Inl (InvalidAuthority ''Invalid authority. Options not set''), s)) \<and>
         (\<forall>e. truthy v \<and> py_json_loads env v = Inl e \<longrightarrow>
            setup_acme_client env authority s = (Inl e, s)) \<and>
         (\<forall>decoded e. truthy v \<and> py_json_loads env v = Inr decoded \<and> iter decoded = Inl e \<longrightarrow>
            setup_acme_client env authority s = (Inl e, s)) \<and>
         (\<forall>decoded items e.
            truthy v \<and> py_json_loads env v = Inr decoded \<and> iter decoded = Inr items \<and>
            collect_options items Map.empty = Inl e \<longrightarrow>
            setup_acme_client env authority s = (Inl e, s)) \<and>
         (\<forall>decoded items options k w1.
            truthy v \<and> py_json_loads env v = Inr decoded \<and> iter decoded = Inr items \<and>
            collect_options items Map.empty = Inr options \<and>
            (\<forall>item\<in>set items. getitem item ''name'' \<noteq> Inr (PStr ''acme_url'')) \<and>
            generate_private_key env ''RSA2048'' (fst s) = (Inr k, w1) \<longrightarrow>
            (\<exists>evs. snd (snd (setup_acme_client env authority s)) =
                     snd s @ [GeneratePrivateKey ''RSA2048'',
                              ClientInit (dict_get (config env) ''ACME_DIRECTORY_URL'') k] @ evs))"
proof -
  obtain w tr where s: "s = (w, tr)" by (cases s)
  have last: "\<exists>evs. snd (snd (setup_acme_client env authority s)) =
                     snd s @ [GeneratePrivateKey ''RSA2048'',
                              ClientInit (dict_get (config env) ''ACME_DIRECTORY_URL'') k] @ evs"
    if t: "truthy v" and d: "py_json_loads env v = Inr decoded" and i: "iter decoded = Inr items"
      and c: "collect_options items Map.empty = Inr options"
      and a: "\<forall>item\<in>set items. getitem item ''name'' \<noteq> Inr (PStr ''acme_url'')"
      and g: "generate_private_key env ''RSA2048'' (fst s) = (Inr k, w1)"
    for decoded items options k w1
  proof -
    have "options (PStr ''acme_url'') = None"
      using collect_options_keeps_absent [OF c a] by simp
    then have u: "options_get options ''acme_url'' (dict_get (config env) ''ACME_DIRECTORY_URL'') =
                  dict_get (config env) ''ACME_DIRECTORY_URL''"
      by (simp add: options_get_def)
    show ?thesis
      using assms t d i c g u s
      by (auto simp: setup_acme_client_def and_then_call Let_def split: prod.splits sum.splits)
  qed
  show ?thesis
    using assms last
    by (auto simp: setup_acme_client_def)
qed

theorem setup_acme_client_option_failures_witness:
  \<open>setup_acme_client demo_env (PObj [(''options'', PStr '''')]) ((), []) =
     (Inl (InvalidAuthority ''Invalid authority. Options not set''), ((), [])) \<and>
   setup_acme_client demo_env (PObj [(''options'', PNone)]) ((), []) =
     (Inl (InvalidAuthority ''Invalid authority. Options not set''), ((), [])) \<and>
   setup_acme_client demo_env (PObj [(''options'', PStr ''not json'')]) ((), []) =
     (Inl (JSONDecodeError ''Expecting value''), ((), [])) \<and>
   setup_acme_client demo_env (PObj [(''options'', PStr ''{"account_id": "123"}'')]) ((), []) =
     (Inl (AttributeError ''get''), ((), [])) \<and>
   (\<exists>evs. snd (snd (setup_acme_client demo_env
        (PObj [(''options'', PStr ''[{"name": "email", "value": "a@b.com"}]'')]) ((), []))) =
      [GeneratePrivateKey ''RSA2048'',
       ClientInit (PStr ''https://default-ca.example/directory'') ''account-key''] @ evs)\<close>
proof -
  have a: "setup_acme_client demo_env (PObj [(''options'', PStr '''')]) ((), []) =
     (Inl (InvalidAuthority ''Invalid authority. Options not set''), ((), []))"
    using setup_acme_client_option_failures
            [of "PObj [(''options'', PStr '''')]" "PStr ''''" demo_env "((), [])"]
    by simp
  have b: "setup_acme_client demo_env (PObj [(''options'', PNone)]) ((), []) =
     (Inl (InvalidAuthority ''Invalid authority. Options not set''), ((), []))"
    using setup_acme_client_option_failures
            [of "PObj [(''options'', PNone)]" "PNone" demo_env "((), [])"]
    by simp
  have c: "setup_acme_client demo_env (PObj [(''options'', PStr ''not json'')]) ((), []) =
     (Inl (JSONDecodeError ''Expecting value''), ((), []))"
    using setup_acme_client_option_failures
            [of "PObj [(''options'', PStr ''not json'')]" "PStr ''not json''" demo_env "((), [])"]
    by (simp add: py_json_loads_def demo_defs)
  have d: \<open>setup_acme_client demo_env (PObj [(''options'', PStr ''{"account_id": "123"}'')]) ((), []) =
     (Inl (AttributeError ''get''), ((), []))\<close>
    using setup_acme_client_option_failures
            [of \<open>PObj [(''options'', PStr ''{"account_id": "123"}'')]\<close>
                \<open>PStr ''{"account_id": "123"}''\<close> demo_env "((), [])"]
    by (simp add: py_json_loads_def demo_defs method_get_def)
  have e: \<open>\<exists>evs. snd (snd (setup_acme_client demo_env
        (PObj [(''options'', PStr ''[{"name": "email", "value": "a@b.com"}]'')]) ((), []))) =
      [GeneratePrivateKey ''RSA2048'',
       ClientInit (PStr ''https://default-ca.example/directory'') ''account-key''] @ evs\<close>
    using setup_acme_client_option_failures
            [of \<open>PObj [(''options'', PStr ''[{"name": "email", "value": "a@b.com"}]'')]\<close>
                \<open>PStr ''[{"name": "email", "value": "a@b.com"}]''\<close> demo_env "((), [])"]
    by (simp add: py_json_loads_def demo_defs method_get_def dict_get_def dict_item_def)
  from a b c d e show ?thesis by blast
qed

text \<open>
  The claim as written fails twice: options that are not JSON raise the decoder's error,
  which is not \<open>InvalidAuthority\<close>; and options without \<open>acme_url\<close> raise nothing: the
  CA of the configuration is contacted and the client is registered there.
\<close>

theorem setup_acme_client_option_failures_counterexample:
  \<open>setup_acme_client demo_env (PObj [(''options'', PStr ''not json'')]) ((), []) =
     (Inl (JSONDecodeError ''Expecting value''), ((), [])) \<and>
   setup_acme_client demo_env
        (PObj [(''options'', PStr ''[{"name": "email", "value": "a@b.com"}]'')]) ((), []) =
     (Inr (\<lparr>directory = PStr ''https://default-ca.example/directory'', key = ''account-key''\<rparr>,
           ''https://ca.example/reg/1''),
      ((), [GeneratePrivateKey ''RSA2048'',
            ClientInit (PStr ''https://default-ca.example/directory'') ''account-key'',
            Register (PStr ''a@b.com''),
            AgreeToTos ''https://ca.example/reg/1'']))\<close>
  by (simp add: setup_acme_client_def py_json_loads_def method_get_def dict_get_def dict_item_def
      options_get_def and_then_call demo_defs Let_def)

section \<open>Certificate creation\<close>

lemma setup_acme_client_trace:
  assumes "setup_acme_client env authority (w, tr) = (Inr (cl, reg), (w1, tr1))"
  shows "\<exists>url email. tr1 = tr @ [GeneratePrivateKey ''RSA2048'', ClientInit url (key cl),
                                   Register email, AgreeToTos reg]"
  using assms
  by (auto simp: setup_acme_client_def and_then_call Let_def
      split: prod.splits sum.splits if_splits)

lemma setup_acme_client_no_work:
  assumes "setup_acme_client env authority (w, tr) = (res, (w1, tr1))"
  shows "filter is_issuance_work tr1 = filter is_issuance_work tr \<and>
         filter is_authorization_create tr1 = filter is_authorization_create tr"
  using assms
  by (auto simp: setup_acme_client_def and_then_call Let_def is_issuance_work_def
        is_authorization_create_def
      split: prod.splits sum.splits if_splits)

lemma flatten_domains_eq:
  "flatten_domains ds acc = Inr fs \<Longrightarrow> fs = acc @ map domain_name ds"
proof (induction ds arbitrary: acc)
  case Nil
  then show ?case by simp
next
  case (Cons d ds)
  show ?case
  proof (cases d)
    case (PStr x)
    with Cons.prems have "flatten_domains ds (acc @ [d]) = Inr fs" by simp
    moreover from PStr have "domain_name d = d" by (simp add: domain_name_def)
    ultimately show ?thesis using Cons.IH [of "acc @ [d]"] by simp
  next
    case (PObj attrs)
    with Cons.prems obtain v where v: "map_of attrs ''value'' = Some v"
      and r: "flatten_domains ds (acc @ [v]) = Inr fs"
      by (auto split: option.splits)
    from v PObj have "domain_name d = v" by (simp add: domain_name_def dict_get_def)
    with Cons.IH [OF r] show ?thesis by simp
  qed (use Cons.prems in auto)
qed

text \<open>
  C3 (as amended). \<open>create_certificate\<close> sets the ACME client up before it looks at the
  DNS provider. So, for a provider of type \<open>route53\<close> whose credentials hold no account
  id, and once the setup has succeeded, the call raises the configuration error, and
  what has been called by then is exactly the setup (key generation, the CA's directory,
  registration, agreement to the terms) followed by the error log: no DNS provider
  call, no challenge request, no authorization-service call.
\<close>

theorem create_certificate_route53_without_account:
  assumes "setup_acme_client env (dict_get issuer_options ''authority'') (w, tr) =
             (Inr (cl, reg), (w1, tr1))"
    and "dict_get issuer_options ''dns_provider'' = PObj attrs"
    and "map_of attrs ''credentials'' = Some ct"
    and "py_json_loads env ct = Inr (PDict creds)"
    and "map_of attrs ''provider_type'' = Some (PStr ''route53'')"
    and "import_relative env ''route53'' = Inr m"
    and "\<not> truthy (dict_get creds ''account_id'')"
    and "map_of attrs ''name'' = Some n"
  shows "create_certificate env csr issuer_options (w, tr) =
           (Inl (InvalidConfiguration
                   (''Route53 DNS Provider '' @ py_str env n @
                    '' does not have an account number configured.'')),
            (w1, tr1 @ [LoggerError
                   (''Route53 DNS Provider '' @ py_str env n @
                    '' does not have an account number configured.'')])) \<and>
         (\<exists>url email. tr1 = tr @ [GeneratePrivateKey ''RSA2048'', ClientInit url (key cl),
                                    Register email, AgreeToTos reg])"
proof -
  have "create_certificate env csr issuer_options (w, tr) =
           (Inl (InvalidConfiguration
                   (''Route53 DNS Provider '' @ py_str env n @
                    '' does not have an account number configured.'')),
            (w1, tr1 @ [LoggerError
                   (''Route53 DNS Provider '' @ py_str env n @
                    '' does not have an account number configured.'')]))"
    using assms
    by (simp add: create_certificate_def Let_def and_then_def [of "setup_acme_client env _"]
        import_provider_def method_get_def)
  with setup_acme_client_trace [OF assms(1)] show ?thesis by blast
qed

lemma demo_env_sel:
  "config demo_env = [(''ACME_DIRECTORY_URL'', PStr ''https://default-ca.example/directory''),
                      (''ACME_EMAIL'', PStr ''ops@example.com'')]"
  "json_loads demo_env = demo_json_loads"
  "py_str demo_env = demo_str"
  "validation_domain_name demo_env = (\<lambda>c h. ''_acme-challenge.'' @ demo_str h)"
  "validation demo_env = (\<lambda>c k. (case chall c of DNS01 t \<Rightarrow> t | _ \<Rightarrow> []) @ ''.'' @ k)"
  "challenge_response demo_env = (\<lambda>c k. (case chall c of DNS01 t \<Rightarrow> t | _ \<Rightarrow> []) @ ''.'' @ k)"
  "public_key demo_env = (\<lambda>k. ''public-'' @ k)"
  "registration_from_data demo_env =
     (\<lambda>email. case email of
                 PNone \<Rightarrow> Inr PNone
               | PStr a \<Rightarrow> Inr (PStr a)
               | _ \<Rightarrow> Inl (AttributeError ''split''))"
  "load_certificate_request demo_env =
     (\<lambda>csr. case csr of PStr s \<Rightarrow> Inr s | _ \<Rightarrow> Inl (TypeError ''csr''))"
  "dump_certificate demo_env = (\<lambda>c. ''PEM '' @ c)"
  "generate_private_key demo_env = (\<lambda>alg w. (Inr ''account-key'', w))"
  "Client demo_env = (\<lambda>url k w. (Inr (), w))"
  "register demo_env = (\<lambda>cl email w. (Inr ''https://ca.example/reg/1'', w))"
  "agree_to_tos demo_env = (\<lambda>cl reg w. (Inr (), w))"
  "request_domain_challenges demo_env = (\<lambda>cl h w. (Inr (demo_authz (demo_str h)), w))"
  "simple_verify demo_env = (\<lambda>resp c h pk w. (Inr (h \<noteq> PStr ''unverified.example.com''), w))"
  "answer_challenge demo_env = (\<lambda>cl c resp w.
        if uri c = ''https://ca.example/chall/dns/rejected.example.com''
        then (Inl (AcmeError ''rejected''), w) else (Inr (), w))"
  "poll_and_request_issuance demo_env = (\<lambda>cl req authzs w. (Inr ''leaf'', w))"
  "fetch_chain demo_env = (\<lambda>cl cert w. (Inr [''intermediate'', ''root''], w))"
  "authorization_get demo_env = (\<lambda>external_id w. (Inr (demo_order external_id), w))"
  "authorization_create demo_env = (\<lambda>account domains provider w. (Inr (PObj [(''id'', PInt 7)]), w))"
  "dns_provider_get demo_env =
     (\<lambda>provider_id w. (Inr (PObj [(''provider_type'', PStr ''route53'')]), w))"
  "import_relative demo_env = (\<lambda>n. if n = ''cloudflare'' \<or> n = ''dyn'' \<or> n = ''route53''
                              then Inr demo_dns else Inl (ImportError n))"
  "cloudflare demo_env = demo_dns"
  "dyn demo_env = demo_dns"
  "route53 demo_env = demo_dns"
  by (simp_all add: demo_env_def)

lemma demo_setup_acme_url:
  \<open>setup_acme_client demo_env
     (PObj [(''options'', PStr ''[{"name": "acme_url", "value": "https://ca.example/directory"}]'')])
     ((), tr) =
   (Inr (\<lparr>directory = PStr ''https://ca.example/directory'', key = ''account-key''\<rparr>,
         ''https://ca.example/reg/1''),
    ((), tr @ [GeneratePrivateKey ''RSA2048'',
               ClientInit (PStr ''https://ca.example/directory'') ''account-key'',
               Register (PStr ''ops@example.com''),
               AgreeToTos ''https://ca.example/reg/1'']))\<close>
  by (simp add: setup_acme_client_def py_json_loads_def method_get_def dict_get_def
      dict_item_def options_get_def and_then_call demo_defs Let_def)

theorem create_certificate_route53_without_account_witness:
  \<open>create_certificate demo_env (PStr ''csr'')
     [(''authority'', PObj [(''options'',
         PStr ''[{"name": "acme_url", "value": "https://ca.example/directory"}]'')]),
      (''dns_provider'', PObj [(''credentials'', PStr ''{}''),
                               (''provider_type'', PStr ''route53''), (''name'', PStr ''prod'')]),
      (''common_name'', PStr ''example.com'')] ((), []) =
   (Inl (InvalidConfiguration
           ''Route53 DNS Provider prod does not have an account number configured.''),
    ((), [GeneratePrivateKey ''RSA2048'',
          ClientInit (PStr ''https://ca.example/directory'') ''account-key'',
          Register (PStr ''ops@example.com''),
          AgreeToTos ''https://ca.example/reg/1'',
          LoggerError ''Route53 DNS Provider prod does not have an account number configured.'']))\<close>
proof -
  let ?opts = \<open>[(''authority'', PObj [(''options'',
         PStr ''[{"name": "acme_url", "value": "https://ca.example/directory"}]'')]),
      (''dns_provider'', PObj [(''credentials'', PStr ''{}''),
                               (''provider_type'', PStr ''route53''), (''name'', PStr ''prod'')]),
      (''common_name'', PStr ''example.com'')]\<close>
  let ?attrs = "[(''credentials'', PStr ''{}''),
                 (''provider_type'', PStr ''route53''), (''name'', PStr ''prod'')]"
  let ?cl = "\<lparr>directory = PStr ''https://ca.example/directory'', key = ''account-key''\<rparr>"
  let ?tr1 = "[GeneratePrivateKey ''RSA2048'',
          ClientInit (PStr ''https://ca.example/directory'') ''account-key'',
          Register (PStr ''ops@example.com''),
          AgreeToTos ''https://ca.example/reg/1'']"
  have a: "setup_acme_client demo_env (dict_get ?opts ''authority'') ((), []) =
             (Inr (?cl, ''https://ca.example/reg/1''), ((), ?tr1))"
    using demo_setup_acme_url [of "[]"] by (simp add: dict_get_def)
  have b: "dict_get ?opts ''dns_provider'' = PObj ?attrs"
    by (simp add: dict_get_def)
  have c: "map_of ?attrs ''credentials'' = Some (PStr ''{}'')" by simp
  have d: "py_json_loads demo_env (PStr ''{}'') = Inr (PDict [])"
    by (simp add: py_json_loads_def demo_defs)
  have e: "map_of ?attrs ''provider_type'' = Some (PStr ''route53'')" by simp
  have f: "import_relative demo_env ''route53'' = Inr demo_dns" by (simp add: demo_env_def)
  have g: "\<not> truthy (dict_get [] ''account_id'')" by (simp add: dict_get_def)
  have h: "map_of ?attrs ''name'' = Some (PStr ''prod'')" by simp
  from create_certificate_route53_without_account [OF a b c d e f g h, of "PStr ''csr''"]
  show ?thesis by (simp add: demo_env_def demo_str_def)
qed

text \<open>
  The claim as written fails: when the error is raised, the client has been created at
  the CA's directory, registered, and has agreed to the terms of service.
\<close>

theorem create_certificate_route53_without_account_counterexample:
  \<open>snd (snd (create_certificate demo_env (PStr ''csr'')
     [(''authority'', PObj [(''options'',
         PStr ''[{"name": "acme_url", "value": "https://ca.example/directory"}]'')]),
      (''dns_provider'', PObj [(''credentials'', PStr ''{}''),
                               (''provider_type'', PStr ''route53''), (''name'', PStr ''prod'')]),
      (''common_name'', PStr ''example.com'')] ((), []))) =
   [GeneratePrivateKey ''RSA2048'',
    ClientInit (PStr ''https://ca.example/directory'') ''account-key'',
    Register (PStr ''ops@example.com''),
    AgreeToTos ''https://ca.example/reg/1'',
    LoggerError ''Route53 DNS Provider prod does not have an account number configured.'']\<close>
  by (simp add: create_certificate_def and_then_def [of "setup_acme_client demo_env _"]
      demo_setup_acme_url py_json_loads_def method_get_def dict_get_def dict_get_default_def
      import_provider_def demo_env_sel demo_json_loads_def demo_str_def Let_def)

section \<open>Deferred creation\<close>

text \<open>
  C9. When \<open>create_immediately\<close> is false or absent, \<open>create_certificate\<close> makes no
  call of DNS challenge orchestration, finalization or issuance, whatever its outcome.
  When it returns, it returns \<open>(None, None, id)\<close>, where \<open>id\<close> is the \<open>id\<close> of the record
  the authorization service created, and the service was asked to create exactly one
  record, for the account number, the provider type, and the domains of the request
  (\<open>get_domains\<close>) flattened.
\<close>

theorem create_certificate_deferred:
  assumes "\<not> truthy (dict_get_default issuer_options ''create_immediately'' (PBool False))"
    and "create_certificate env csr issuer_options (w, tr) = (res, (w', tr'))"
  shows "filter is_issuance_work tr' = filter is_issuance_work tr \<and>
         (\<forall>result. res = Inr result \<longrightarrow>
            (\<exists>domains account_number provider_type authorization x authorization_id.
               result = (PNone, PNone, authorization_id) \<and>
               get_domains issuer_options = Inr domains \<and>
               getattr (dict_get issuer_options ''dns_provider'') ''provider_type'' =
                 Inr provider_type \<and>
               filter is_authorization_create tr' =
                 filter is_authorization_create tr @
                 [AuthorizationCreate account_number (map domain_name domains) provider_type] \<and>
               fst (authorization_create env account_number (map domain_name domains)
                      provider_type x) = Inr authorization \<and>
               getattr authorization ''id'' = Inr authorization_id))"
proof -
  obtain r1 w1 tr1 where
    su: "setup_acme_client env (dict_get issuer_options ''authority'') (w, tr) = (r1, (w1, tr1))"
    by (metis surj_pair)
  have k: "filter is_issuance_work tr1 = filter is_issuance_work tr"
    and k2: "filter is_authorization_create tr1 = filter is_authorization_create tr"
    using setup_acme_client_no_work [OF su] by simp_all
  show ?thesis
  proof (cases r1)
    case (Inl e)
    with su assms(2) have "res = Inl e" "tr' = tr1"
      by (simp_all add: create_certificate_def Let_def and_then_def [of "setup_acme_client env _"])
    with k show ?thesis by simp
  next
    case (Inr p)
    obtain cl reg where p: "p = (cl, reg)" by (cases p)
    have fl: "fs = map domain_name ds" if "flatten_domains ds [] = Inr fs" for ds fs
      using flatten_domains_eq [OF that] by simp
    show ?thesis
      using su assms Inr p k k2
      by (auto simp: create_certificate_def Let_def and_then_def [of "setup_acme_client env _"]
            and_then_call is_issuance_work_def is_authorization_create_def
          split: sum.splits prod.splits if_splits dest!: fl)
        (metis fst_conv)+
  qed
qed

theorem create_certificate_deferred_witness:
  \<open>create_certificate demo_env (PStr ''csr'')
     [(''authority'', PObj [(''options'',
         PStr ''[{"name": "acme_url", "value": "https://ca.example/directory"}]'')]),
      (''dns_provider'', PObj [(''credentials'', PStr ''{"account_id": "123"}''),
                               (''provider_type'', PStr ''route53''), (''name'', PStr ''prod'')]),
      (''common_name'', PStr ''example.com''),
      (''extensions'', PDict [(''sub_alt_names'',
          PDict [(''names'', PList [PObj [(''value'', PStr ''www.example.com'')]])])])]
     ((), []) =
   (Inr (PNone, PNone, PInt 7),
    ((), [GeneratePrivateKey ''RSA2048'',
          ClientInit (PStr ''https://ca.example/directory'') ''account-key'',
          Register (PStr ''ops@example.com''),
          AgreeToTos ''https://ca.example/reg/1'',
          AuthorizationCreate (PStr ''123'') [PStr ''example.com'', PStr ''www.example.com'']
            (PStr ''route53'')])) \<and>
   filter is_issuance_work
     [GeneratePrivateKey ''RSA2048'',
      ClientInit (PStr ''https://ca.example/directory'') ''account-key'',
      Register (PStr ''ops@example.com''),
      AgreeToTos ''https://ca.example/reg/1'',
      AuthorizationCreate (PStr ''123'') [PStr ''example.com'', PStr ''www.example.com'']
        (PStr ''route53'')] = []\<close>
proof -
  let ?opts = \<open>[(''authority'', PObj [(''options'',
         PStr ''[{"name": "acme_url", "value": "https://ca.example/directory"}]'')]),
      (''dns_provider'', PObj [(''credentials'', PStr ''{"account_id": "123"}''),
                               (''provider_type'', PStr ''route53''), (''name'', PStr ''prod'')]),
      (''common_name'', PStr ''example.com''),
      (''extensions'', PDict [(''sub_alt_names'',
          PDict [(''names'', PList [PObj [(''value'', PStr ''www.example.com'')]])])])]\<close>
  let ?tr = "[GeneratePrivateKey ''RSA2048'',
          ClientInit (PStr ''https://ca.example/directory'') ''account-key'',
          Register (PStr ''ops@example.com''),
          AgreeToTos ''https://ca.example/reg/1'',
          AuthorizationCreate (PStr ''123'') [PStr ''example.com'', PStr ''www.example.com'']
            (PStr ''route53'')]"
  have deferred: "\<not> truthy (dict_get_default ?opts ''create_immediately'' (PBool False))"
    by (simp add: dict_get_default_def)
  have run: "create_certificate demo_env (PStr ''csr'') ?opts ((), []) =
             (Inr (PNone, PNone, PInt 7), ((), ?tr))"
    by (simp add: create_certificate_def and_then_def [of "setup_acme_client demo_env _"]
        demo_setup_acme_url py_json_loads_def method_get_def dict_get_def dict_get_default_def
        dict_item_def get_domains_def import_provider_def and_then_call demo_env_sel
        demo_json_loads_def demo_str_def Let_def)
  from create_certificate_deferred [OF deferred run]
  have "filter is_issuance_work ?tr = filter is_issuance_work []" by blast
  with run show ?thesis by simp
qed

section \<open>Resolving one pending certificate\<close>

text \<open>
  C7 (as amended). The \<open>try\<close> of \<open>get_ordered_certificate\<close> holds the orchestration
  (\<open>get_authorizations\<close>) alone and its handler names \<open>ClientError\<close> alone. Once the
  client is set up and the order and the DNS provider are found: a \<open>ClientError\<close> of
  the orchestration is logged and the call returns \<open>False\<close>; any other exception of the
  orchestration reaches the caller; and so does every exception of the finalization
  and of the issuance, a \<open>ClientError\<close> included.
\<close>

theorem get_ordered_certificate_client_error:
  assumes "getattr pending_cert ''authority'' = Inr authority"
    and "setup_acme_client env authority s = (Inr (cl, reg), s1)"
    and "getattr pending_cert ''external_id'' = Inr external_id"
    and "call (AuthorizationGet external_id) (authorization_get env external_id) s1 =
           (Inr order_info, s2)"
    and "getattr pending_cert ''dns_provider_id'' = Inr dns_provider_id"
    and "call (DnsProviderGet dns_provider_id) (dns_provider_get env dns_provider_id) s2 =
           (Inr dns_provider, s3)"
    and "getattr dns_provider ''provider_type'' = Inr provider_type"
    and "get_dns_provider env provider_type = Inr dns"
    and "getattr order_info ''account_number'' = Inr account_number"
    and "getattr order_info ''domains'' = Inr domains"
  shows "(\<forall>m w4 tr4 n.
            get_authorizations env cl account_number domains dns s3 =
              (Inl (ClientError m), (w4, tr4)) \<and>
            getattr pending_cert ''name'' = Inr n \<longrightarrow>
            get_ordered_certificate env pending_cert s =
              (Inr (PBool False),
               (w4, tr4 @ [LoggerError (''Unable to resolve pending cert: '' @ py_str env n)]))) \<and>
         (\<forall>e s4.
            get_authorizations env cl account_number domains dns s3 = (Inl e, s4) \<and>
            \<not> isinstance e CClientError \<longrightarrow>
            get_ordered_certificate env pending_cert s = (Inl e, s4)) \<and>
         (\<forall>authorizations s4 e s5.
            get_authorizations env cl account_number domains dns s3 = (Inr authorizations, s4) \<and>
            finalize_authorizations env cl account_number dns authorizations s4 = (Inl e, s5) \<longrightarrow>
            get_ordered_certificate env pending_cert s = (Inl e, s5)) \<and>
         (\<forall>authorizations s4 finalized s5 csr e s6.
            get_authorizations env cl account_number domains dns s3 = (Inr authorizations, s4) \<and>
            finalize_authorizations env cl account_number dns authorizations s4 =
              (Inr finalized, s5) \<and>
            getattr pending_cert ''csr'' = Inr csr \<and>
            request_certificate env cl finalized csr s5 = (Inl e, s6) \<longrightarrow>
            get_ordered_certificate env pending_cert s = (Inl e, s6))"
  using assms
  by (simp add: get_ordered_certificate_def try_except_def
      and_then_def [of "setup_acme_client env _"] and_then_def [of "call _ _"]
      and_then_def [of "get_authorizations _ _ _ _ _"]
      and_then_def [of "finalize_authorizations _ _ _ _ _"]
      and_then_def [of "request_certificate _ _ _ _"])

lemma demo_setup_no_options:
  "setup_acme_client demo_env (PObj [(''options'', PStr ''[]'')]) ((), tr) =
   (Inr (\<lparr>directory = PStr ''https://default-ca.example/directory'', key = ''account-key''\<rparr>,
         ''https://ca.example/reg/1''),
    ((), tr @ [GeneratePrivateKey ''RSA2048'',
               ClientInit (PStr ''https://default-ca.example/directory'') ''account-key'',
               Register (PStr ''ops@example.com''),
               AgreeToTos ''https://ca.example/reg/1'']))"
  by (simp add: setup_acme_client_def py_json_loads_def dict_get_def
      options_get_def and_then_call demo_env_sel demo_json_loads_def Let_def)

lemma demo_get_authorizations_throttled:
  "get_authorizations demo_env cl (PStr ''123'') (PList [PStr ''throttled.example.com'']) demo_dns
     ((), tr) =
   (Inl (ClientError ''Throttling''),
    ((), tr @ [RequestDomainChallenges (PStr ''throttled.example.com''),
               CreateTxtRecord ''_acme-challenge.throttled.example.com''
                 (''token-throttled.example.com.'' @ key cl) (PStr ''123'')]))"
  by (simp add: get_authorizations_def start_dns_challenge_def find_dns_challenge_def
      io_defs demo_env_sel demo_dns_def demo_authz_def demo_challb_def demo_http_challb_def
      demo_str_def)

lemma demo_get_authorizations_slow:
  "get_authorizations demo_env cl (PStr ''123'') (PList [PStr ''slow.example.com'']) demo_dns
     ((), tr) =
   (Inr [\<lparr>host = PStr ''slow.example.com'', authz = demo_authz ''slow.example.com'',
          dns_challenge = demo_challb ''slow.example.com'',
          change_id = PStr ''change:_acme-challenge.slow.example.com''\<rparr>],
    ((), tr @ [RequestDomainChallenges (PStr ''slow.example.com''),
               CreateTxtRecord ''_acme-challenge.slow.example.com''
                 (''token-slow.example.com.'' @ key cl) (PStr ''123'')]))"
  by (simp add: get_authorizations_def start_dns_challenge_def find_dns_challenge_def
      io_defs demo_env_sel demo_dns_def demo_authz_def demo_challb_def demo_http_challb_def
      demo_str_def)

lemma demo_finalize_slow:
  "finalize_authorizations demo_env cl (PStr ''123'') demo_dns
     [\<lparr>host = PStr ''slow.example.com'', authz = demo_authz ''slow.example.com'',
          dns_challenge = demo_challb ''slow.example.com'',
          change_id = PStr ''change:_acme-challenge.slow.example.com''\<rparr>] ((), tr) =
   (Inl (ClientError ''Timeout''),
    ((), tr @ [WaitForDnsChange (PStr ''change:_acme-challenge.slow.example.com'') (PStr ''123''),
               DeleteTxtRecord (PStr ''change:_acme-challenge.slow.example.com'') (PStr ''123'')
                 ''_acme-challenge.slow.example.com'' (''token-slow.example.com.'' @ key cl)]))"
  by (simp add: finalize_authorizations_def complete_dns_challenge_def io_defs demo_env_sel
      demo_dns_def demo_challb_def demo_str_def Let_def)

theorem get_ordered_certificate_client_error_witness:
  "get_ordered_certificate demo_env
     (PObj [(''authority'', PObj [(''options'', PStr ''[]'')]),
            (''external_id'', PStr ''order-throttled''), (''dns_provider_id'', PInt 1),
            (''csr'', PStr ''csr''), (''name'', PStr ''throttled-cert'')]) ((), []) =
   (Inr (PBool False),
    ((), [GeneratePrivateKey ''RSA2048'',
          ClientInit (PStr ''https://default-ca.example/directory'') ''account-key'',
          Register (PStr ''ops@example.com''),
          AgreeToTos ''https://ca.example/reg/1'',
          AuthorizationGet (PStr ''order-throttled''),
          DnsProviderGet (PInt 1),
          RequestDomainChallenges (PStr ''throttled.example.com''),
          CreateTxtRecord ''_acme-challenge.throttled.example.com''
            ''token-throttled.example.com.account-key'' (PStr ''123''),
          LoggerError ''Unable to resolve pending cert: throttled-cert'']))"
proof -
  let ?pc = "PObj [(''authority'', PObj [(''options'', PStr ''[]'')]),
            (''external_id'', PStr ''order-throttled''), (''dns_provider_id'', PInt 1),
            (''csr'', PStr ''csr''), (''name'', PStr ''throttled-cert'')]"
  let ?cl = "\<lparr>directory = PStr ''https://default-ca.example/directory'', key = ''account-key''\<rparr>"
  let ?tr1 = "[GeneratePrivateKey ''RSA2048'',
          ClientInit (PStr ''https://default-ca.example/directory'') ''account-key'',
          Register (PStr ''ops@example.com''),
          AgreeToTos ''https://ca.example/reg/1'']"
  have a: "getattr ?pc ''authority'' = Inr (PObj [(''options'', PStr ''[]'')])" by simp
  have b: "setup_acme_client demo_env (PObj [(''options'', PStr ''[]'')]) ((), []) =
           (Inr (?cl, ''https://ca.example/reg/1''), ((), ?tr1))"
    using demo_setup_no_options [of "[]"] by simp
  have c: "getattr ?pc ''external_id'' = Inr (PStr ''order-throttled'')" by simp
  have d: "call (AuthorizationGet (PStr ''order-throttled''))
             (authorization_get demo_env (PStr ''order-throttled'')) ((), ?tr1) =
           (Inr (demo_order (PStr ''order-throttled'')),
            ((), ?tr1 @ [AuthorizationGet (PStr ''order-throttled'')]))"
    by (simp add: call_def demo_env_sel)
  have e: "getattr ?pc ''dns_provider_id'' = Inr (PInt 1)" by simp
  have f: "call (DnsProviderGet (PInt 1)) (dns_provider_get demo_env (PInt 1))
             ((), ?tr1 @ [AuthorizationGet (PStr ''order-throttled'')]) =
           (Inr (PObj [(''provider_type'', PStr ''route53'')]),
            ((), ?tr1 @ [AuthorizationGet (PStr ''order-throttled''), DnsProviderGet (PInt 1)]))"
    by (simp add: call_def demo_env_sel)
  have g: "getattr (PObj [(''provider_type'', PStr ''route53'')]) ''provider_type'' =
           Inr (PStr ''route53'')" by simp
  have h: "get_dns_provider demo_env (PStr ''route53'') = Inr demo_dns"
    by (simp add: get_dns_provider_def demo_env_sel)
  have i: "getattr (demo_order (PStr ''order-throttled'')) ''account_number'' = Inr (PStr ''123'')"
    by (simp add: demo_order_def)
  have j: "getattr (demo_order (PStr ''order-throttled'')) ''domains'' =
           Inr (PList [PStr ''throttled.example.com''])"
    by (simp add: demo_order_def)
  have k: "getattr ?pc ''name'' = Inr (PStr ''throttled-cert'')" by simp
  have ga: "get_authorizations demo_env ?cl (PStr ''123'') (PList [PStr ''throttled.example.com''])
              demo_dns
              ((), ?tr1 @ [AuthorizationGet (PStr ''order-throttled''), DnsProviderGet (PInt 1)]) =
            (Inl (ClientError ''Throttling''),
             ((), (?tr1 @ [AuthorizationGet (PStr ''order-throttled''), DnsProviderGet (PInt 1)]) @
                  [RequestDomainChallenges (PStr ''throttled.example.com''),
                   CreateTxtRecord ''_acme-challenge.throttled.example.com''
                     (''token-throttled.example.com.'' @ key ?cl) (PStr ''123'')]))"
    by (rule demo_get_authorizations_throttled)
  note caught = get_ordered_certificate_client_error
                  [OF a b c d e f g h i j, THEN conjunct1, rule_format, OF conjI [OF ga k]]
  then show ?thesis by (simp add: demo_env_sel demo_str_def)
qed

text \<open>
  The claim as written fails for a failure after the orchestration: the DNS provider
  raises \<open>ClientError\<close> while the finalization waits for the record, and the caller
  receives the exception, not \<open>False\<close>.
\<close>

theorem get_ordered_certificate_client_error_counterexample:
  "get_ordered_certificate demo_env
     (PObj [(''authority'', PObj [(''options'', PStr ''[]'')]),
            (''external_id'', PStr ''order-slow''), (''dns_provider_id'', PInt 1),
            (''csr'', PStr ''csr''), (''name'', PStr ''slow-cert'')]) ((), []) =
   (Inl (ClientError ''Timeout''),
    ((), [GeneratePrivateKey ''RSA2048'',
          ClientInit (PStr ''https://default-ca.example/directory'') ''account-key'',
          Register (PStr ''ops@example.com''),
          AgreeToTos ''https://ca.example/reg/1'',
          AuthorizationGet (PStr ''order-slow''),
          DnsProviderGet (PInt 1),
          RequestDomainChallenges (PStr ''slow.example.com''),
          CreateTxtRecord ''_acme-challenge.slow.example.com''
            ''token-slow.example.com.account-key'' (PStr ''123''),
          WaitForDnsChange (PStr ''change:_acme-challenge.slow.example.com'') (PStr ''123''),
          DeleteTxtRecord (PStr ''change:_acme-challenge.slow.example.com'') (PStr ''123'')
            ''_acme-challenge.slow.example.com'' ''token-slow.example.com.account-key'']))"
  by (simp add: get_ordered_certificate_def try_except_def
      and_then_def [of "setup_acme_client demo_env _"] and_then_call
      and_then_def [of "get_authorizations _ _ _ _ _"]
      and_then_def [of "finalize_authorizations _ _ _ _ _"]
      demo_setup_no_options demo_get_authorizations_slow demo_finalize_slow
      demo_env_sel demo_order_def get_dns_provider_def)

section \<open>The batch\<close>

lemma orchestrate_loop_results:
  assumes "orchestration_results env pending_certs s = (rs, s1)"
  shows "orchestrate_loop env pending_certs pending certs s =
           (Inr (pending @ orchestrated rs, certs @ map (outcome (PBool False)) (failures rs)), s1)"
  using assms
proof (induction pending_certs arbitrary: pending certs s rs s1)
  case Nil
  then show ?case by simp
next
  case (Cons pc rest)
  obtain r w1 tr1 where o: "orchestrate_pending_cert env pc s = (r, (w1, tr1))"
    by (metis surj_pair)
  show ?case
  proof (cases r)
    case (Inl e)
    let ?s = "(w1, tr1 @ [LoggerError (''Unable to resolve pending cert: '' @ py_str env pc)])"
    obtain rs' where r: "orchestration_results env rest ?s = (rs', s1)" "rs = (pc, Inl e) # rs'"
      using Cons.prems o Inl by (auto split: prod.splits)
    from Cons.IH [OF r(1), of pending "certs @ [outcome (PBool False) pc]"] o Inl r(2)
    show ?thesis by (simp add: try_except_def)
  next
    case (Inr entry)
    obtain rs' where r: "orchestration_results env rest (w1, tr1) = (rs', s1)"
      "rs = (pc, Inr entry) # rs'"
      using Cons.prems o Inr by (auto split: prod.splits)
    from Cons.IH [OF r(1), of "pending @ [entry]" certs] o Inr r(2)
    show ?thesis by (simp add: try_except_def)
  qed
qed

lemma finalize_loop_results:
  assumes "finalization_results env logged entries s = (os, s2)"
  shows "finalize_loop env logged entries certs s = (Inr (certs @ os), s2)"
  using assms
proof (induction entries arbitrary: certs s os s2)
  case Nil
  then show ?case by simp
next
  case (Cons entry rest)
  obtain r w1 tr1 where o: "finalize_entry env entry s = (r, (w1, tr1))"
    by (metis surj_pair)
  show ?case
  proof (cases r)
    case (Inl e)
    let ?s = "(w1, tr1 @ [LoggerError (''Unable to resolve pending cert: '' @ py_str env logged)])"
    obtain os' where r: "finalization_results env logged rest ?s = (os', s2)"
      "os = outcome (PBool False) (entry_pending_cert entry) # os'"
      using Cons.prems o Inl by (auto split: prod.splits)
    from Cons.IH [OF r(1), of "certs @ [outcome (PBool False) (entry_pending_cert entry)]"]
         o Inl r(2)
    show ?thesis by (simp add: try_except_def)
  next
    case (Inr result)
    obtain os' where r: "finalization_results env logged rest (w1, tr1) = (os', s2)"
      "os = result # os'"
      using Cons.prems o Inr by (auto split: prod.splits)
    from Cons.IH [OF r(1), of "certs @ [result]"] o Inr r(2)
    show ?thesis by (simp add: try_except_def)
  qed
qed

lemma orchestrate_pending_cert_entry:
  assumes "orchestrate_pending_cert env pc s = (Inr entry, s1)"
  shows "entry_pending_cert entry = pc"
proof -
  obtain w tr where s: "s = (w, tr)" by (cases s)
  show ?thesis
    using assms unfolding s orchestrate_pending_cert_def
    by (auto simp: and_then_call and_then_def [of "setup_acme_client env _"]
          and_then_def [of "get_authorizations _ _ _ _ _"]
        split: sum.splits prod.splits)
qed

lemma finalize_entry_outcome:
  assumes "finalize_entry env entry s = (Inr result, s1)"
  shows "pending_cert_of result = entry_pending_cert entry \<and> is_cert_dict (cert_of result)"
  using assms unfolding finalize_entry_def
  by (auto simp: and_then_def [of "finalize_authorizations _ _ _ _ _"]
        and_then_def [of "request_certificate _ _ _ _"] outcome_def cert_dict_def
        pending_cert_of_def cert_of_def is_cert_dict_def dict_get_def
      split: sum.splits prod.splits)

lemma orchestration_results_items:
  assumes "orchestration_results env pending_certs s = (rs, s1)"
  shows "map fst rs = pending_certs \<and>
         mset (failures rs) + mset (map entry_pending_cert (orchestrated rs)) = mset pending_certs"
  using assms
proof (induction pending_certs arbitrary: s rs s1)
  case Nil
  then show ?case by simp
next
  case (Cons pc rest)
  obtain r w1 tr1 where o: "orchestrate_pending_cert env pc s = (r, (w1, tr1))"
    by (metis surj_pair)
  show ?case
  proof (cases r)
    case (Inl e)
    let ?s = "(w1, tr1 @ [LoggerError (''Unable to resolve pending cert: '' @ py_str env pc)])"
    obtain rs' where r: "orchestration_results env rest ?s = (rs', s1)" "rs = (pc, Inl e) # rs'"
      using Cons.prems o Inl by (auto split: prod.splits)
    from Cons.IH [OF r(1)] r(2) show ?thesis by simp
  next
    case (Inr entry)
    obtain rs' where r: "orchestration_results env rest (w1, tr1) = (rs', s1)"
      "rs = (pc, Inr entry) # rs'"
      using Cons.prems o Inr by (auto split: prod.splits)
    from o Inr have "entry_pending_cert entry = pc"
      using orchestrate_pending_cert_entry by blast
    with Cons.IH [OF r(1)] r(2) show ?thesis by simp
  qed
qed

lemma finalization_results_items:
  assumes "finalization_results env logged entries s = (os, s2)"
  shows "map pending_cert_of os = map entry_pending_cert entries \<and>
         (\<forall>c\<in>set os. cert_of c = PBool False \<or> is_cert_dict (cert_of c))"
  using assms
proof (induction entries arbitrary: s os s2)
  case Nil
  then show ?case by simp
next
  case (Cons entry rest)
  obtain r w1 tr1 where o: "finalize_entry env entry s = (r, (w1, tr1))"
    by (metis surj_pair)
  show ?case
  proof (cases r)
    case (Inl e)
    let ?s = "(w1, tr1 @ [LoggerError (''Unable to resolve pending cert: '' @ py_str env logged)])"
    obtain os' where r: "finalization_results env logged rest ?s = (os', s2)"
      "os = outcome (PBool False) (entry_pending_cert entry) # os'"
      using Cons.prems o Inl by (auto split: prod.splits)
    from Cons.IH [OF r(1)] r(2) show ?thesis
      by (simp add: outcome_def pending_cert_of_def cert_of_def dict_get_def)
  next
    case (Inr result)
    obtain os' where r: "finalization_results env logged rest (w1, tr1) = (os', s2)"
      "os = result # os'"
      using Cons.prems o Inr by (auto split: prod.splits)
    from finalize_entry_outcome o Inr
    have "pending_cert_of result = entry_pending_cert entry \<and> is_cert_dict (cert_of result)"
      by blast
    with Cons.IH [OF r(1)] r(2) show ?thesis by simp
  qed
qed

text \<open>
  C5. Take the batch item by item: \<open>rs\<close> holds, for each pending certificate in order,
  the exception its setup or orchestration raised or the work item it produced, and
  \<open>os\<close> the outcome of finalizing and issuing each work item. Then
  \<open>get_ordered_certificates\<close> does not raise: it returns the record
  \<open>{cert: False, pending_cert}\<close> of every item whose orchestration raised, followed by
  the outcomes \<open>os\<close> of all the other items, each of which went through the
  finalization and issuance phase and carries its own pending certificate with either
  its certificate or \<open>False\<close>. There is one outcome per pending certificate.
\<close>

theorem get_ordered_certificates_isolates_failures:
  assumes "orchestration_results env pending_certs s = (rs, s1)"
    and "finalization_results env (if pending_certs = [] then PNone else last pending_certs)
           (orchestrated rs) s1 = (os, s2)"
  shows "get_ordered_certificates env pending_certs s =
           (Inr (map (outcome (PBool False)) (failures rs) @ os), s2) \<and>
         map fst rs = pending_certs \<and>
         map pending_cert_of os = map entry_pending_cert (orchestrated rs) \<and>
         (\<forall>c\<in>set os. cert_of c = PBool False \<or> is_cert_dict (cert_of c)) \<and>
         mset (failures rs) + mset (map entry_pending_cert (orchestrated rs)) = mset pending_certs \<and>
         length (map (outcome (PBool False)) (failures rs) @ os) = length pending_certs"
proof -
  have run: "get_ordered_certificates env pending_certs s =
           (Inr (map (outcome (PBool False)) (failures rs) @ os), s2)"
    using orchestrate_loop_results [OF assms(1), of "[]" "[]"]
      finalize_loop_results [OF assms(2), of "map (outcome (PBool False)) (failures rs)"]
    by (simp add: get_ordered_certificates_def and_then_def)
  note items = orchestration_results_items [OF assms(1)]
  note outs = finalization_results_items [OF assms(2)]
  have "length os = length (orchestrated rs)"
    using outs by (metis length_map)
  moreover have "length (failures rs) + length (orchestrated rs) = length pending_certs"
    using items by (metis length_map size_mset size_union)
  ultimately have len: "length (map (outcome (PBool False)) (failures rs) @ os) =
                        length pending_certs"
    by simp
  from run items outs len show ?thesis by blast
qed

lemma demo_batch_run:
  "fst (get_ordered_certificates demo_env
     [demo_pending_cert ''order-throttled'', demo_pending_cert ''order-ok'',
      demo_pending_cert ''order-slow''] ((), [])) =
   Inr [outcome (PBool False) (demo_pending_cert ''order-throttled''),
        outcome (PDict [(''body'', PStr ''PEM leaf''),
                        (''chain'', PStr (''PEM intermediate'' @ [CHR 0x0A] @ ''PEM root'')),
                        (''external_id'', PStr ''order-ok'')])
                (demo_pending_cert ''order-ok''),
        outcome (PBool False) (demo_pending_cert ''order-slow'')]"
  by (simp add: get_ordered_certificates_def orchestrate_pending_cert_def finalize_entry_def
      setup_acme_client_def get_authorizations_def start_dns_challenge_def
      find_dns_challenge_def finalize_authorizations_def complete_dns_challenge_def
      request_certificate_def cert_dict_def splitlines_def line_boundary_def
      get_dns_provider_def py_json_loads_def options_get_def dict_get_def
      demo_pending_cert_def io_defs demo_env_sel demo_dns_def demo_authz_def demo_challb_def
      demo_http_challb_def demo_str_def demo_json_loads_def demo_order_def Let_def)

theorem get_ordered_certificates_isolates_failures_witness:
  "\<exists>certs.
     fst (get_ordered_certificates demo_env
       [demo_pending_cert ''order-throttled'', demo_pending_cert ''order-ok'',
        demo_pending_cert ''order-slow''] ((), [])) = Inr certs \<and>
     length certs = 3 \<and>
     certs =
       [outcome (PBool False) (demo_pending_cert ''order-throttled''),
        outcome (PDict [(''body'', PStr ''PEM leaf''),
                        (''chain'', PStr (''PEM intermediate'' @ [CHR 0x0A] @ ''PEM root'')),
                        (''external_id'', PStr ''order-ok'')])
                (demo_pending_cert ''order-ok''),
        outcome (PBool False) (demo_pending_cert ''order-slow'')]"
proof -
  let ?pcs = "[demo_pending_cert ''order-throttled'', demo_pending_cert ''order-ok'',
               demo_pending_cert ''order-slow'']"
  let ?R = "orchestration_results demo_env ?pcs ((), [])"
  let ?F = "finalization_results demo_env (if ?pcs = [] then PNone else last ?pcs)
              (orchestrated (fst ?R)) (snd ?R)"
  let ?certs = "map (outcome (PBool False)) (failures (fst ?R)) @ fst ?F"
  have a: "?R = (fst ?R, snd ?R)" by simp
  have b: "?F = (fst ?F, snd ?F)" by simp
  from get_ordered_certificates_isolates_failures [OF a b]
  have run: "get_ordered_certificates demo_env ?pcs ((), []) = (Inr ?certs, snd ?F)"
    and len: "length ?certs = length ?pcs"
    by blast+
  from run have r: "fst (get_ordered_certificates demo_env ?pcs ((), [])) = Inr ?certs"
    by simp
  with demo_batch_run have "?certs =
       [outcome (PBool False) (demo_pending_cert ''order-throttled''),
        outcome (PDict [(''body'', PStr ''PEM leaf''),
                        (''chain'', PStr (''PEM intermediate'' @ [CHR 0x0A] @ ''PEM root'')),
                        (''external_id'', PStr ''order-ok'')])
                (demo_pending_cert ''order-ok''),
        outcome (PBool False) (demo_pending_cert ''order-slow'')]"
    by simp
  with r len show ?thesis by simp
qed

section \<open>The cleanup stops at a deletion that raises\<close>

lemma delete_all_append:
  "delete_all env cl acct dns (xs @ ys) s =
     and_then (delete_all env cl acct dns xs) (\<lambda>_. delete_all env cl acct dns ys) s"
proof (induction xs arbitrary: s)
  case Nil
  show ?case by (simp add: and_then_def ret_def)
next
  case (Cons x xs)
  show ?case
    by (simp add: and_then_def Let_def Cons.IH split: prod.splits sum.splits)
qed

lemma delete_all_prefix_trace:
  assumes "delete_all env cl acct dns auths (w1, tr1) = (Inr (), (w2, tr2))"
  shows "tr2 = tr1 @ map (delete_call env cl acct) auths"
  using delete_all_trace [OF assms] by auto

lemma delete_all_stops:
  assumes k: "k < length auths"
    and p: "delete_all env cl acct dns (take k auths) (w1, tr1) = (Inr (), (wk, trk))"
    and d: "delete_txt_record dns (change_id (auths ! k)) acct
              (validation_domain_name env (dns_challenge (auths ! k)) (host (auths ! k)))
              (validation env (dns_challenge (auths ! k)) (key cl)) wk = (Inl e, wk')"
  shows "delete_all env cl acct dns auths (w1, tr1) =
           (Inl e, (wk', tr1 @ map (delete_call env cl acct) (take (Suc k) auths)))"
proof -
  have t: "trk = tr1 @ map (delete_call env cl acct) (take k auths)"
    using delete_all_prefix_trace [OF p] .
  have one: "delete_all env cl acct dns (auths ! k # drop (Suc k) auths) (wk, trk) =
             (Inl e, (wk', trk @ [delete_call env cl acct (auths ! k)]))"
    using d by (simp add: and_then_def call_def Let_def delete_call_def)
  have "auths = take k auths @ auths ! k # drop (Suc k) auths"
    using k by (simp add: id_take_nth_drop)
  then have "delete_all env cl acct dns auths (w1, tr1) =
             delete_all env cl acct dns (take k auths @ auths ! k # drop (Suc k) auths) (w1, tr1)"
    by simp
  also have "\<dots> = (Inl e, (wk', trk @ [delete_call env cl acct (auths ! k)]))"
    using p one by (simp add: delete_all_append and_then_def)
  finally show ?thesis
    using t k by (simp add: take_Suc_conv_app_nth)
qed

lemma delete_all_cases:
  "(\<exists>w2 tr2. delete_all env cl acct dns auths (w1, tr1) = (Inr (), (w2, tr2))) \<or>
   (\<exists>k wk trk e wk'. k < length auths \<and>
      delete_all env cl acct dns (take k auths) (w1, tr1) = (Inr (), (wk, trk)) \<and>
      delete_txt_record dns (change_id (auths ! k)) acct
        (validation_domain_name env (dns_challenge (auths ! k)) (host (auths ! k)))
        (validation env (dns_challenge (auths ! k)) (key cl)) wk = (Inl e, wk'))"
proof (induction auths arbitrary: w1 tr1)
  case Nil
  show ?case by (simp add: ret_def)
next
  case (Cons a auths)
  let ?ev = "delete_call env cl acct a"
  obtain r w' where c: "delete_txt_record dns (change_id a) acct
               (validation_domain_name env (dns_challenge a) (host a))
               (validation env (dns_challenge a) (key cl)) w1 = (r, w')"
    by (metis surj_pair)
  show ?case
  proof (cases r)
    case (Inl e)
    have "0 < length (a # auths) \<and>
          delete_all env cl acct dns (take 0 (a # auths)) (w1, tr1) = (Inr (), (w1, tr1)) \<and>
          delete_txt_record dns (change_id ((a # auths) ! 0)) acct
            (validation_domain_name env (dns_challenge ((a # auths) ! 0)) (host ((a # auths) ! 0)))
            (validation env (dns_challenge ((a # auths) ! 0)) (key cl)) w1 = (Inl e, w')"
      using c Inl by (simp add: ret_def)
    then show ?thesis by blast
  next
    case (Inr u)
    have step: "delete_all env cl acct dns (a # xs) (w1, tr1) =
                delete_all env cl acct dns xs (w', tr1 @ [?ev])" for xs
      using c Inr by (simp add: and_then_def call_def Let_def delete_call_def)
    from Cons.IH [of w' "tr1 @ [?ev]"] show ?thesis
    proof
      assume "\<exists>w2 tr2. delete_all env cl acct dns auths (w', tr1 @ [?ev]) = (Inr (), (w2, tr2))"
      then show ?thesis using step by simp
    next
      assume "\<exists>k wk trk e wk'. k < length auths \<and>
        delete_all env cl acct dns (take k auths) (w', tr1 @ [?ev]) = (Inr (), (wk, trk)) \<and>
        delete_txt_record dns (change_id (auths ! k)) acct
          (validation_domain_name env (dns_challenge (auths ! k)) (host (auths ! k)))
          (validation env (dns_challenge (auths ! k)) (key cl)) wk = (Inl e, wk')"
      then obtain k wk trk e wk' where k: "k < length auths"
        and p: "delete_all env cl acct dns (take k auths) (w', tr1 @ [?ev]) = (Inr (), (wk, trk))"
        and d: "delete_txt_record dns (change_id (auths ! k)) acct
          (validation_domain_name env (dns_challenge (auths ! k)) (host (auths ! k)))
          (validation env (dns_challenge (auths ! k)) (key cl)) wk = (Inl e, wk')"
        by blast
      have "Suc k < length (a # auths) \<and>
            delete_all env cl acct dns (take (Suc k) (a # auths)) (w1, tr1) = (Inr (), (wk, trk)) \<and>
            delete_txt_record dns (change_id ((a # auths) ! Suc k)) acct
              (validation_domain_name env (dns_challenge ((a # auths) ! Suc k))
                 (host ((a # auths) ! Suc k)))
              (validation env (dns_challenge ((a # auths) ! Suc k)) (key cl)) wk = (Inl e, wk')"
        using k p d step [of "take k auths"] by simp
      then show ?thesis by blast
    qed
  qed
qed

text \<open>
  C1 (as amended). Let the challenge loop have run, with whatever outcome (every
  challenge completed, a failed wait, a failed local verification, a submission the CA
  rejected); it deletes nothing. The cleanup then calls \<open>delete_txt_record\<close> for the
  records in order, each with the record's change id, the account number, and the
  validation domain name and value computed again from the record's challenge and host.
  When every deletion returns, each record has been deleted exactly once and the
  outcome of the challenge loop stands. When the deletions of the first \<open>k\<close> records
  return and that of record \<open>k\<close> raises, the cleanup ends there: the trace holds the
  deletions of records \<open>0..k\<close> and nothing after them, no deletion is attempted for
  the later records, and the error of that deletion is what is raised. One of the two
  is always the case.
\<close>

theorem finalize_authorizations_deletes:
  assumes "complete_all env acme_client account_number dns_provider authorizations (w, tr) =
             (r1, (w1, tr1))"
  shows "filter is_delete tr1 = filter is_delete tr \<and>
         (\<forall>w2 tr2.
            delete_all env acme_client account_number dns_provider authorizations (w1, tr1) =
              (Inr (), (w2, tr2)) \<longrightarrow>
            finalize_authorizations env acme_client account_number dns_provider authorizations
              (w, tr) =
              ((case r1 of Inl e \<Rightarrow> Inl e | Inr u \<Rightarrow> Inr authorizations),
               (w2, tr1 @ map (delete_call env acme_client account_number) authorizations))) \<and>
         (\<forall>k wk trk e wk'.
            k < length authorizations \<and>
            delete_all env acme_client account_number dns_provider (take k authorizations)
              (w1, tr1) = (Inr (), (wk, trk)) \<and>
            delete_txt_record dns_provider (change_id (authorizations ! k)) account_number
              (validation_domain_name env (dns_challenge (authorizations ! k))
                 (host (authorizations ! k)))
              (validation env (dns_challenge (authorizations ! k)) (key acme_client)) wk =
              (Inl e, wk') \<longrightarrow>
            finalize_authorizations env acme_client account_number dns_provider authorizations
              (w, tr) =
              (Inl e,
               (wk', tr1 @ map (delete_call env acme_client account_number)
                             (take (Suc k) authorizations)))) \<and>
         ((\<exists>w2 tr2.
             delete_all env acme_client account_number dns_provider authorizations (w1, tr1) =
               (Inr (), (w2, tr2))) \<or>
          (\<exists>k wk trk e wk'.
             k < length authorizations \<and>
             delete_all env acme_client account_number dns_provider (take k authorizations)
               (w1, tr1) = (Inr (), (wk, trk)) \<and>
             delete_txt_record dns_provider (change_id (authorizations ! k)) account_number
               (validation_domain_name env (dns_challenge (authorizations ! k))
                  (host (authorizations ! k)))
               (validation env (dns_challenge (authorizations ! k)) (key acme_client)) wk =
               (Inl e, wk')))"
proof -
  have frame: "filter is_delete tr1 = filter is_delete tr"
    using complete_all_no_delete [OF assms] .
  have complete: "finalize_authorizations env acme_client account_number dns_provider
              authorizations (w, tr) =
              ((case r1 of Inl e \<Rightarrow> Inl e | Inr u \<Rightarrow> Inr authorizations),
               (w2, tr1 @ map (delete_call env acme_client account_number) authorizations))"
    if d: "delete_all env acme_client account_number dns_provider authorizations (w1, tr1) =
              (Inr (), (w2, tr2))" for w2 tr2
    using assms d delete_all_prefix_trace [OF d]
    by (simp add: finalize_authorizations_def and_then_def try_finally_def ret_def
        split: sum.splits)
  have stops: "finalize_authorizations env acme_client account_number dns_provider
              authorizations (w, tr) =
              (Inl e,
               (wk', tr1 @ map (delete_call env acme_client account_number)
                             (take (Suc k) authorizations)))"
    if k: "k < length authorizations"
      and p: "delete_all env acme_client account_number dns_provider (take k authorizations)
              (w1, tr1) = (Inr (), (wk, trk))"
      and d: "delete_txt_record dns_provider (change_id (authorizations ! k)) account_number
              (validation_domain_name env (dns_challenge (authorizations ! k))
                 (host (authorizations ! k)))
              (validation env (dns_challenge (authorizations ! k)) (key acme_client)) wk =
              (Inl e, wk')"
    for k wk trk e wk'
    using assms delete_all_stops [OF k p d]
    by (simp add: finalize_authorizations_def and_then_def try_finally_def ret_def)
  note cases = delete_all_cases [of env acme_client account_number dns_provider authorizations w1 tr1]
  from frame complete stops cases show ?thesis by blast
qed

theorem finalize_authorizations_deletes_witness:
  "finalize_authorizations demo_env demo_client (PStr ''123'') demo_dns
     [demo_record ''example.com'', demo_record ''www.example.com''] ((), []) =
   (Inr [demo_record ''example.com'', demo_record ''www.example.com''],
    ((), (demo_completed ''example.com'' @ demo_completed ''www.example.com'') @
         [demo_deleted ''example.com'', demo_deleted ''www.example.com''])) \<and>
   finalize_authorizations demo_env demo_client (PStr ''123'') demo_dns
     [demo_record ''example.com'', demo_record ''stuck.example.com'',
      demo_record ''www.example.com''] ((), []) =
   (Inl (ClientError ''AccessDenied''),
    ((), (demo_completed ''example.com'' @ demo_completed ''stuck.example.com'' @
          demo_completed ''www.example.com'') @
         [demo_deleted ''example.com'', demo_deleted ''stuck.example.com'']))"
proof -
  let ?two = "[demo_record ''example.com'', demo_record ''www.example.com'']"
  let ?t2 = "demo_completed ''example.com'' @ demo_completed ''www.example.com''"
  let ?three = "[demo_record ''example.com'', demo_record ''stuck.example.com'',
                 demo_record ''www.example.com'']"
  let ?t3 = "demo_completed ''example.com'' @ demo_completed ''stuck.example.com'' @
             demo_completed ''www.example.com''"
  have c2: "complete_all demo_env demo_client (PStr ''123'') demo_dns ?two ((), []) =
            (Inr (), ((), ?t2))"
    by (simp add: complete_dns_challenge_def io_defs demo_env_sel demo_dns_def demo_client_def
        demo_record_def demo_challb_def demo_str_def demo_completed_def Let_def)
  have d2: "delete_all demo_env demo_client (PStr ''123'') demo_dns ?two ((), ?t2) =
            (Inr (), ((), ?t2 @ [demo_deleted ''example.com'', demo_deleted ''www.example.com'']))"
    by (simp add: io_defs demo_env_sel demo_dns_def demo_client_def
        demo_record_def demo_challb_def demo_str_def demo_deleted_def Let_def)
  have m2: "map (delete_call demo_env demo_client (PStr ''123'')) ?two =
            [demo_deleted ''example.com'', demo_deleted ''www.example.com'']"
    by (simp add: delete_call_def demo_env_sel demo_client_def demo_record_def demo_challb_def
        demo_str_def demo_deleted_def)
  note all = finalize_authorizations_deletes
               [OF c2, THEN conjunct2, THEN conjunct1, rule_format, OF d2]
  have one: "finalize_authorizations demo_env demo_client (PStr ''123'') demo_dns ?two ((), []) =
             (Inr ?two, ((), ?t2 @ [demo_deleted ''example.com'', demo_deleted ''www.example.com'']))"
    using all m2 by simp
  have c3: "complete_all demo_env demo_client (PStr ''123'') demo_dns ?three ((), []) =
            (Inr (), ((), ?t3))"
    by (simp add: complete_dns_challenge_def io_defs demo_env_sel demo_dns_def demo_client_def
        demo_record_def demo_challb_def demo_str_def demo_completed_def Let_def)
  have k: "(1::nat) < length ?three" by simp
  have p3: "delete_all demo_env demo_client (PStr ''123'') demo_dns (take 1 ?three) ((), ?t3) =
            (Inr (), ((), ?t3 @ [demo_deleted ''example.com'']))"
    by (simp add: io_defs demo_env_sel demo_dns_def demo_client_def
        demo_record_def demo_challb_def demo_str_def demo_deleted_def Let_def)
  have d3: "delete_txt_record demo_dns (change_id (?three ! 1)) (PStr ''123'')
              (validation_domain_name demo_env (dns_challenge (?three ! 1)) (host (?three ! 1)))
              (validation demo_env (dns_challenge (?three ! 1)) (key demo_client)) () =
            (Inl (ClientError ''AccessDenied''), ())"
    by (simp add: demo_dns_def demo_record_def)
  have m3: "map (delete_call demo_env demo_client (PStr ''123'')) (take (Suc 1) ?three) =
            [demo_deleted ''example.com'', demo_deleted ''stuck.example.com'']"
    by (simp add: delete_call_def demo_env_sel demo_client_def demo_record_def demo_challb_def
        demo_str_def demo_deleted_def)
  note stops = finalize_authorizations_deletes
                 [OF c3, THEN conjunct2, THEN conjunct2, THEN conjunct1, rule_format,
                  OF conjI [OF k conjI [OF p3 d3]]]
  have two: "finalize_authorizations demo_env demo_client (PStr ''123'') demo_dns ?three ((), []) =
             (Inl (ClientError ''AccessDenied''),
              ((), ?t3 @ [demo_deleted ''example.com'', demo_deleted ''stuck.example.com'']))"
    using stops m3 by simp
  from one two show ?thesis by simp
qed

text \<open>
  The claim as written fails where a deletion raises: the deletion of the first record
  raises, and no deletion is attempted for the second.
\<close>

theorem finalize_authorizations_deletes_counterexample:
  "finalize_authorizations demo_env demo_client (PStr ''123'') demo_dns
      [demo_record ''stuck.example.com'', demo_record ''www.example.com''] ((), []) =
   (Inl (ClientError ''AccessDenied''), ((),
    [WaitForDnsChange (PStr ''change:_acme-challenge.stuck.example.com'') (PStr ''123''),
     SimpleVerify ''token-stuck.example.com.account-key'' (DNS01 ''token-stuck.example.com'')
       (PStr ''stuck.example.com'') ''public-account-key'',
     AnswerChallenge (demo_challb ''stuck.example.com'') ''token-stuck.example.com.account-key'',
     WaitForDnsChange (PStr ''change:_acme-challenge.www.example.com'') (PStr ''123''),
     SimpleVerify ''token-www.example.com.account-key'' (DNS01 ''token-www.example.com'')
       (PStr ''www.example.com'') ''public-account-key'',
     AnswerChallenge (demo_challb ''www.example.com'') ''token-www.example.com.account-key'',
     DeleteTxtRecord (PStr ''change:_acme-challenge.stuck.example.com'') (PStr ''123'')
       ''_acme-challenge.stuck.example.com'' ''token-stuck.example.com.account-key'']))"
  by (simp add: finalize_authorizations_def complete_dns_challenge_def io_defs demo_defs Let_def)

section \<open>Record objects under finalization\<close>

lemma complete_dns_challenge_at_value:
  "complete_dns_challenge_at env cl acct r dns h s =
     (case complete_dns_challenge env cl acct (h r) dns s of (res, s1) \<Rightarrow> (res, s1, h))"
  by (simp add: complete_dns_challenge_at_def complete_dns_challenge_def and_then_def raise_def
      Let_def split: prod.splits sum.splits)

lemma complete_all_at_value:
  "complete_all_at env cl acct dns refs h s =
     (case complete_all env cl acct dns (map h refs) s of (res, s1) \<Rightarrow> (res, s1, h))"
proof (induction refs arbitrary: s)
  case Nil
  show ?case by (simp add: ret_def)
next
  case (Cons r refs)
  show ?case
    by (simp add: complete_dns_challenge_at_value and_then_def Cons.IH
        split: prod.splits sum.splits)
qed

lemma delete_all_at_value:
  "delete_all_at env cl acct dns refs h s =
     (case delete_all env cl acct dns (map h refs) s of (res, s1) \<Rightarrow> (res, s1, h))"
proof (induction refs arbitrary: s)
  case Nil
  show ?case by (simp add: ret_def)
next
  case (Cons r refs)
  show ?case
    by (simp add: and_then_def Let_def Cons.IH split: prod.splits sum.splits)
qed

text \<open>
  C10. Over record objects: on every exit path of \<open>finalize_authorizations\<close>, whether it
  returns or the challenge loop or the cleanup raises, the heap is the heap it started
  with, so every record of the list has the host, authz, dns_challenge and change_id it
  came with; and when it returns, it returns the very list of references it was given.
  On the values the references stand for, it is the function of the other properties.
\<close>

theorem finalize_authorizations_leaves_records:
  assumes "finalize_authorizations_at env acme_client account_number dns_provider authorizations
             h s = (res, s', h')"
  shows "h' = h \<and>
         (\<forall>r\<in>set authorizations.
            host (h' r) = host (h r) \<and> authz (h' r) = authz (h r) \<and>
            dns_challenge (h' r) = dns_challenge (h r) \<and> change_id (h' r) = change_id (h r)) \<and>
         (\<forall>result. res = Inr result \<longrightarrow> result = authorizations) \<and>
         finalize_authorizations env acme_client account_number dns_provider
           (map h authorizations) s = (map_sum id (map h) res, s')"
proof -
  obtain r1 s1 where c: "complete_all env acme_client account_number dns_provider
                           (map h authorizations) s = (r1, s1)"
    by (cases "complete_all env acme_client account_number dns_provider (map h authorizations) s")
  obtain r2 s2 where d: "delete_all env acme_client account_number dns_provider
                           (map h authorizations) s1 = (r2, s2)"
    by (cases "delete_all env acme_client account_number dns_provider (map h authorizations) s1")
  from assms c d have heap: "h' = h" and st: "s' = s2"
    and res: "res = (case r2 of Inl e \<Rightarrow> Inl e
                     | Inr u \<Rightarrow> (case r1 of Inl e \<Rightarrow> Inl e | Inr v \<Rightarrow> Inr authorizations))"
    by (auto simp: finalize_authorizations_at_def complete_all_at_value delete_all_at_value
        split: sum.splits)
  have val: "finalize_authorizations env acme_client account_number dns_provider
               (map h authorizations) s = (map_sum id (map h) res, s')"
    using c d st res
    by (simp add: finalize_authorizations_def and_then_def try_finally_def ret_def
        split: sum.splits)
  from heap res val show ?thesis by (auto split: sum.splits)
qed

theorem finalize_authorizations_leaves_records_witness:
  "(\<exists>s'. finalize_authorizations_at demo_env demo_client (PStr ''123'') demo_dns [0, 1] demo_heap
            ((), []) = (Inl (ValueError ''Failed verification''), s', demo_heap)) \<and>
   (\<exists>s'. finalize_authorizations_at demo_env demo_client (PStr ''123'') demo_dns [0] demo_heap
            ((), []) = (Inr [0], s', demo_heap))"
proof -
  let ?raising = "finalize_authorizations_at demo_env demo_client (PStr ''123'') demo_dns [0, 1]
                    demo_heap ((), [])"
  let ?returning = "finalize_authorizations_at demo_env demo_client (PStr ''123'') demo_dns [0]
                      demo_heap ((), [])"
  obtain res s' h' where run: "?raising = (res, s', h')"
    by (cases ?raising)
  have v: "fst (finalize_authorizations demo_env demo_client (PStr ''123'') demo_dns
                  (map demo_heap [0, 1]) ((), [])) = Inl (ValueError ''Failed verification'')"
    by (simp add: finalize_authorizations_def complete_dns_challenge_def io_defs demo_env_sel
        demo_dns_def demo_client_def demo_record_def demo_challb_def demo_str_def demo_heap_def
        Let_def)
  from finalize_authorizations_leaves_records [OF run] v
  have "h' = demo_heap" and "map_sum id (map demo_heap) res = Inl (ValueError ''Failed verification'')"
    by simp_all
  then have "h' = demo_heap" and "res = Inl (ValueError ''Failed verification'')"
    by (simp, cases res) simp_all
  with run have one: "\<exists>s'. ?raising = (Inl (ValueError ''Failed verification''), s', demo_heap)"
    by blast
  obtain res2 s2 h2 where run2: "?returning = (res2, s2, h2)"
    by (cases ?returning)
  have v2: "fst (finalize_authorizations demo_env demo_client (PStr ''123'') demo_dns
                  (map demo_heap [0]) ((), [])) = Inr [demo_record ''example.com'']"
    by (simp add: finalize_authorizations_def complete_dns_challenge_def io_defs demo_env_sel
        demo_dns_def demo_client_def demo_record_def demo_challb_def demo_str_def demo_heap_def
        Let_def)
  note frame = finalize_authorizations_leaves_records [OF run2]
  from frame v2 have "map_sum id (map demo_heap) res2 = Inr [demo_record ''example.com'']"
    by simp
  then obtain result where "res2 = Inr result"
    by (cases res2) simp_all
  with frame have "h2 = demo_heap" and "res2 = Inr [0]"
    by simp_all
  with run2 have two: "\<exists>s'. ?returning = (Inr [0], s', demo_heap)"
    by blast
  from one two show ?thesis by blast
qed

end
